theory Spec2Isabelle
  imports Main
begin

section \<open>Python strings and integers\<close>

text \<open>
  The instance manager is Python 2. Its strings are byte strings (\<open>string\<close>), its integers
  are unbounded (\<open>int\<close>). The library calls the claims depend on are written out here:
  \<open>str\<close> on an integer, \<open>int\<close> on a string, \<open>split\<close>, \<open>rsplit(sep, 1)\<close>, \<open>join\<close>,
  \<open>startswith\<close>.
\<close>

datatype error =
    BadConfigurationException string
  | AssertionError string
  | ValueError
  | ProcessNotFound string
  | HTTPError int string
  | NoNodeError
  | NodeExistsError
  | ConfigInaccessible
  | ExternalError string

definition digit_char :: "nat \<Rightarrow> char" where
  "digit_char d = char_of (48 + d)"

function str_nat :: "nat \<Rightarrow> string" where
  "str_nat n = (if n < 10 then [digit_char n] else str_nat (n div 10) @ [digit_char (n mod 10)])"
  by pat_completeness auto
termination
  by (relation "measure id") auto

declare str_nat.simps [simp del]

text \<open>\<open>str(i)\<close> for a Python integer: decimal digits, with a leading minus sign when negative.\<close>

definition py_str :: "int \<Rightarrow> string" where
  "py_str i = (if i < 0 then CHR ''-'' # str_nat (nat (- i)) else str_nat (nat i))"

definition is_digit :: "char \<Rightarrow> bool" where
  "is_digit c = (48 \<le> (of_char c :: nat) \<and> (of_char c :: nat) \<le> 57)"

definition digit_val :: "char \<Rightarrow> nat" where
  "digit_val c = of_char c - 48"

definition nat_of_digits :: "string \<Rightarrow> nat" where
  "nat_of_digits ds = foldl (\<lambda>acc c. 10 * acc + digit_val c) 0 ds"

definition is_space :: "char \<Rightarrow> bool" where
  "is_space c = ((of_char c :: nat) \<in> {9, 10, 11, 12, 13, 32})"

definition py_strip :: "string \<Rightarrow> string" where
  "py_strip s = rev (dropWhile is_space (rev (dropWhile is_space s)))"

text \<open>
  \<open>int(s)\<close> on a string: surrounding whitespace is dropped, one sign is allowed, and what is
  left must be a non-empty run of decimal digits; anything else raises \<open>ValueError\<close>.
\<close>

definition py_int :: "string \<Rightarrow> error + int" where
  "py_int s =
     (let t = py_strip s;
          neg = (t \<noteq> [] \<and> hd t = CHR ''-'');
          ds = (if t \<noteq> [] \<and> (hd t = CHR ''-'' \<or> hd t = CHR ''+'') then tl t else t)
      in if ds \<noteq> [] \<and> list_all is_digit ds
         then Inr (if neg then - int (nat_of_digits ds) else int (nat_of_digits ds))
         else Inl ValueError)"

text \<open>\<open>s.split(sep)\<close> for a one-character separator: never empty, \<open>''.split(sep) == ['']\<close>.\<close>

fun py_split :: "char \<Rightarrow> string \<Rightarrow> string list" where
  "py_split sep [] = [[]]"
| "py_split sep (c # cs) =
     (if c = sep then [] # py_split sep cs
      else (case py_split sep cs of
              [] \<Rightarrow> [[c]]
            | w # ws \<Rightarrow> (c # w) # ws))"

text \<open>\<open>sep.join(parts)\<close>.\<close>

fun py_join :: "string \<Rightarrow> string list \<Rightarrow> string" where
  "py_join sep [] = []"
| "py_join sep [w] = w"
| "py_join sep (w # v # ws) = w @ sep @ py_join sep (v # ws)"

text \<open>
  \<open>s.rsplit(sep, 1)\<close>: split once at the last separator; a string without the separator
  comes back whole, as a one-element list.
\<close>

definition py_rsplit1 :: "char \<Rightarrow> string \<Rightarrow> string list" where
  "py_rsplit1 sep s =
     (if sep \<in> set s
      then (let after = takeWhile (\<lambda>c. c \<noteq> sep) (rev s)
            in [rev (drop (Suc (length after)) (rev s)), rev after])
      else [s])"

definition startswith :: "string \<Rightarrow> string \<Rightarrow> bool" where
  "startswith s p = (take (length p) s = p)"

section \<open>Constants\<close>

definition API_SERVER_PREFIX :: string where
  "API_SERVER_PREFIX = ''api-server_''"

definition MAX_API_SERVER_PORT :: int where
  "MAX_API_SERVER_PORT = 19999"

definition START_APP_TIMEOUT :: int where
  "START_APP_TIMEOUT = 180"

definition BACKOFF_TIME :: int where
  "BACKOFF_TIME = 1"

definition FETCH_PATH :: string where
  "FETCH_PATH = ''/_ah/health_check''"

definition HTTP_OK :: int where
  "HTTP_OK = 200"

definition VERSION_REGISTRATION_NODE :: string where
  "VERSION_REGISTRATION_NODE = ''/appscale/instances_by_version''"

text \<open>
  Modelled from the spec: \<open>MONIT_INSTANCE_PREFIX\<close> is imported from
  \<open>appscale.admin.instance_manager.constants\<close>, which is not among the sources. The data
  model names instance watches \<open>instance_{revisionKey}-{port}\<close>.
\<close>

definition MONIT_INSTANCE_PREFIX :: string where
  "MONIT_INSTANCE_PREFIX = ''instance_''"

text \<open>
  Modelled from the spec: \<open>VERSION_PATH_SEPARATOR\<close> is imported from
  \<open>appscale.common.constants\<close>. The spec serialises a version key with a single separator
  (\<open>proj_default_v1\<close>), and \<open>recover_state\<close> itself splits revision keys at an underscore.
\<close>

definition VERSION_PATH_SEPARATOR :: char where
  "VERSION_PATH_SEPARATOR = CHR ''_''"

text \<open>
  Modelled from the spec: \<open>HTTPCodes\<close> is imported from \<open>appscale.common.constants\<close>; the
  error table gives 400 for a bad configuration and 500 for the internal error.
\<close>

definition BAD_REQUEST :: int where
  "BAD_REQUEST = 400"

definition INTERNAL_ERROR :: int where
  "INTERNAL_ERROR = 500"

section \<open>Watch names\<close>

text \<open>
  \<open>ensure_api_server\<close> builds \<open>watch = API_SERVER_PREFIX + project_id\<close> and
  \<open>full_watch = '-'.join([watch, str(server_port)])\<close>.
\<close>

definition api_server_watch :: "string \<Rightarrow> string" where
  "api_server_watch project_id = API_SERVER_PREFIX @ project_id"

definition api_server_full_watch :: "string \<Rightarrow> int \<Rightarrow> string" where
  "api_server_full_watch project_id server_port =
     py_join ''-'' [api_server_watch project_id, py_str server_port]"

text \<open>
  \<open>api_server_info\<close>, the local function of \<open>populate_api_servers\<close>: the entry is split at
  its last hyphen and the prefix is cut off by length. Unpacking a one-element list and
  \<open>int\<close> on a non-number both raise \<open>ValueError\<close>.
\<close>

definition api_server_info :: "string \<Rightarrow> error + (string \<times> int)" where
  "api_server_info entry =
     (case py_rsplit1 CHR ''-'' entry of
        [pre, port_str] \<Rightarrow>
          (case py_int port_str of
             Inl err \<Rightarrow> Inl err
           | Inr p \<Rightarrow> Inr (drop (length API_SERVER_PREFIX) pre, p))
      | _ \<Rightarrow> Inl ValueError)"

text \<open>
  \<open>start_app\<close> builds \<open>watch = MONIT_INSTANCE_PREFIX + revision_key\<close> and
  \<open>full_watch = '{}-{}'.format(watch, config['app_port'])\<close>.
\<close>

definition instance_watch :: "string \<Rightarrow> string" where
  "instance_watch rk = MONIT_INSTANCE_PREFIX @ rk"

definition instance_full_watch :: "string \<Rightarrow> int \<Rightarrow> string" where
  "instance_full_watch rk prt = instance_watch rk @ ''-'' @ py_str prt"

text \<open>
  The parse shared by \<open>recover_state\<close>, \<open>stop_app_instance\<close> and \<open>stop_app\<close>:
  \<open>revision, port = entry[len(MONIT_INSTANCE_PREFIX):].rsplit('-', 1)\<close>, then \<open>int(port)\<close>.
\<close>

definition parse_instance_entry :: "string \<Rightarrow> error + (string \<times> int)" where
  "parse_instance_entry entry =
     (case py_rsplit1 CHR ''-'' (drop (length MONIT_INSTANCE_PREFIX) entry) of
        [rk, port_str] \<Rightarrow>
          (case py_int port_str of
             Inl err \<Rightarrow> Inl err
           | Inr p \<Rightarrow> Inr (rk, p))
      | _ \<Rightarrow> Inl ValueError)"

section \<open>Data model\<close>

text \<open>
  \<open>class Instance\<close>: two slots, equality and hashing by both. The properties
  \<open>version_key\<close> (the first three components of the revision key) and \<open>revision\<close> (the
  last one) are computed by splitting at the separator.
\<close>

datatype Instance = Instance (revision_key: string) (port: int)

definition version_key :: "Instance \<Rightarrow> string" where
  "version_key i =
     py_join [VERSION_PATH_SEPARATOR]
       (take 3 (py_split VERSION_PATH_SEPARATOR (revision_key i)))"

definition revision :: "Instance \<Rightarrow> string" where
  "revision i = last (py_split VERSION_PATH_SEPARATOR (revision_key i))"

text \<open>\<open>repr\<close> of an instance, as \<open>__repr__\<close> formats it.\<close>

definition instance_repr :: "Instance \<Rightarrow> string" where
  "instance_repr i = ''<Instance: '' @ revision_key i @ '':'' @ py_str (port i) @ ''>''"

text \<open>
  The request body of a start, after JSON decoding: a dictionary in which either key may be
  missing.
\<close>

record config =
  app_port :: "int option"
  login_server :: "string option"

text \<open>
  The fields of a version's \<open>version_details\<close> that \<open>start_app\<close> reads. \<open>runtime\<close>,
  \<open>revision\<close> and the source URL are read by subscript and are always present in a stored
  version; \<open>instanceClass\<close> is optional.
\<close>

record version_details =
  runtime :: string
  revision_id :: int
  source_url :: string
  instance_class :: "string option"

text \<open>
  Modelled from the spec: the runtime tags of \<open>appscale.common.constants\<close> are not among the
  sources; the start path names the runtimes python27, go, php and java.
\<close>

definition PYTHON27 :: string where "PYTHON27 = ''python27''"
definition GO :: string where "GO = ''go''"
definition PHP :: string where "PHP = ''php''"
definition JAVA :: string where "JAVA = ''java''"

text \<open>What the outside world answers: one Monit fetch, one \<open>opener.open\<close>.\<close>

datatype fetch_result = Fetched | FetchError int string

datatype open_result = Response int | IOError

text \<open>
  Everything the module reads but does not own: the tornado options, the imported helpers
  and constants that are not among the sources, the projects model, and the answers of Monit
  and of the probed application. \<open>monit_fetch name n\<close> is the answer to the \<open>n\<close>-th
  unmonitor request for \<open>name\<close>, \<open>url_open url n\<close> the outcome of the \<open>n\<close>-th attempt
  to open \<open>url\<close>; \<open>monit_entries\<close> are the keys of \<open>monit_operator.get_entries()\<close> in
  iteration order. \<open>config_accessible\<close> says whether
  \<open>deployment_config.get_config('runtime_parameters')\<close> returns (it raises
  \<open>ConfigInaccessible\<close> otherwise); \<open>ensure_source revision_key\<close> is the message of the
  exception \<open>source_manager.ensure_source\<close> ends in, if it does not return. That exception
  is of a class of the source manager's, which this module neither defines nor catches; it
  is \<open>ExternalError\<close> here. In the same way \<open>monit_reload\<close> and \<open>clean_old_sources\<close> are
  the messages of the exceptions that \<open>monit_operator.reload()\<close> and the cleaning of old
  sources end in, if they do not return. \<open>monit_operator.get_entries()\<close> returns.
\<close>

record env =
  private_ip :: string
  is_app_name_valid :: "string \<Rightarrow> bool"
  projects_manager :: "string \<Rightarrow> (string \<Rightarrow> (string \<Rightarrow> version_details option) option) option"
  default_max_appserver_memory :: int
  INSTANCE_CLASSES :: "string \<Rightarrow> int option"
  DASHBOARD_PROJECT_ID :: string
  DASHBOARD_LOG_SIZE :: int
  APP_LOG_SIZE :: int
  monit_start :: "string \<Rightarrow> bool"
  monit_fetch :: "string \<Rightarrow> nat \<Rightarrow> fetch_result"
  monit_entries :: "string list"
  url_open :: "string \<Rightarrow> nat \<Rightarrow> open_result"
  os_remove_ok :: "string \<Rightarrow> bool"
  config_accessible :: bool
  ensure_source :: "string \<Rightarrow> string option"
  monit_reload :: "string option"
  clean_old_sources :: "string option"

text \<open>
  Callbacks handed to \<open>IOLoop.spawn_callback\<close>, and the trace of what one operation does:
  every call that leaves the module, in program order, together with the calls of
  \<open>register_instance\<close> and \<open>unregister_instance\<close>, the return of \<open>ensure_api_server\<close>
  inside \<open>start_app\<close>, and the warnings and errors logged.
\<close>

datatype callback = AddRouting Instance | StopInstance string

datatype event =
    CreateConfigFile string int
  | MonitStart string
  | ApiServerEnsured string int
  | EnsureSource string
  | ZkEnsurePath string
  | RegisterInstance Instance
  | UnregisterInstance Instance
  | SpawnCallback callback
  | SetupLogrotate string int
  | RemoveLogrotate string
  | UrlOpen string
  | Sleep int
  | MonitUnmonitor string
  | RemoveConfiguration string
  | TerminateProcess string
  | MonitReload
  | CleanOldSources
  | LogWarning string
  | LogError string

text \<open>
  The module's globals (\<open>api_servers\<close>, \<open>running_instances\<close>), the registry subtree of
  ZooKeeper (version key, then instance entry, then payload), the callbacks spawned and not
  yet run, and the trace. A dictionary is an association list in iteration order.
\<close>

record state =
  api_servers :: "(string \<times> int) list"
  running_instances :: "Instance set"
  zk_nodes :: "(string \<times> (string \<times> string) list) list"
  pending :: "callback list"
  trace :: "event list"

definition emit :: "event list \<Rightarrow> state \<Rightarrow> state" where
  "emit evs s = s\<lparr>trace := trace s @ evs\<rparr>"

definition spawn_callback :: "callback \<Rightarrow> state \<Rightarrow> state" where
  "spawn_callback cb s = s\<lparr>pending := pending s @ [cb], trace := trace s @ [SpawnCallback cb]\<rparr>"

text \<open>\<open>d[k] = v\<close> and \<open>del d[k]\<close> on a dictionary.\<close>

fun dict_set :: "'k \<Rightarrow> 'v \<Rightarrow> ('k \<times> 'v) list \<Rightarrow> ('k \<times> 'v) list" where
  "dict_set k v [] = [(k, v)]"
| "dict_set k v ((k', v') # kvs) =
     (if k' = k then (k, v) # kvs else (k', v') # dict_set k v kvs)"

definition dict_del :: "'k \<Rightarrow> ('k \<times> 'v) list \<Rightarrow> ('k \<times> 'v) list" where
  "dict_del k kvs = filter (\<lambda>kv. fst kv \<noteq> k) kvs"

section \<open>Registry client\<close>

text \<open>
  The KazooClient is not among the sources; its calls are modelled on the subtree under
  \<open>VERSION_REGISTRATION_NODE\<close> as the module uses them. \<open>create(path, value)\<close> is called
  without \<open>makepath\<close>: it raises \<open>NoNodeError\<close> when the version node is missing and
  \<open>NodeExistsError\<close> when the instance node is there already. \<open>set\<close> replaces the payload of
  an existing node. \<open>delete\<close> removes the node and raises \<open>NoNodeError\<close> when there is none,
  which \<open>unregister_instance\<close> passes over, so that it is a function here. \<open>ensure_path\<close>
  creates the version node when it is missing. The node \<open>VERSION_REGISTRATION_NODE\<close> itself
  is there: \<open>recover_state\<close> ensures it before anything reads the registry.
\<close>

definition zk_create ::
  "string \<Rightarrow> string \<Rightarrow> string \<Rightarrow> (string \<times> (string \<times> string) list) list
     \<Rightarrow> error + (string \<times> (string \<times> string) list) list" where
  "zk_create v entry payload z =
     (case map_of z v of
        None \<Rightarrow> Inl NoNodeError
      | Some children \<Rightarrow>
          (case map_of children entry of
             None \<Rightarrow> Inr (dict_set v (children @ [(entry, payload)]) z)
           | Some old \<Rightarrow> Inl NodeExistsError))"

definition zk_set ::
  "string \<Rightarrow> string \<Rightarrow> string \<Rightarrow> (string \<times> (string \<times> string) list) list
     \<Rightarrow> error + (string \<times> (string \<times> string) list) list" where
  "zk_set v entry payload z =
     (case map_of z v of
        None \<Rightarrow> Inl NoNodeError
      | Some children \<Rightarrow>
          (case map_of children entry of
             None \<Rightarrow> Inl NoNodeError
           | Some old \<Rightarrow> Inr (dict_set v (dict_set entry payload children) z)))"

definition zk_delete ::
  "string \<Rightarrow> string \<Rightarrow> (string \<times> (string \<times> string) list) list
     \<Rightarrow> (string \<times> (string \<times> string) list) list" where
  "zk_delete v entry z =
     (case map_of z v of
        None \<Rightarrow> z
      | Some children \<Rightarrow> dict_set v (dict_del entry children) z)"

definition zk_ensure_path ::
  "string \<Rightarrow> (string \<times> (string \<times> string) list) list
     \<Rightarrow> (string \<times> (string \<times> string) list) list" where
  "zk_ensure_path v z = (case map_of z v of None \<Rightarrow> z @ [(v, [])] | Some children \<Rightarrow> z)"


text \<open>\<open>instance_entry = ':'.join([options.private_ip, str(instance.port)])\<close>.\<close>

definition instance_entry :: "env \<Rightarrow> Instance \<Rightarrow> string" where
  "instance_entry e i = py_join '':'' [private_ip e, py_str (port i)]"

text \<open>
  \<open>unregister_instance\<close>: delete the node (\<open>NoNodeError\<close> is passed over), remove the
  instance from \<open>running_instances\<close> (\<open>KeyError\<close> is only logged at info level).
\<close>

definition unregister_instance :: "env \<Rightarrow> state \<Rightarrow> Instance \<Rightarrow> state" where
  "unregister_instance e s i =
     s\<lparr>zk_nodes := zk_delete (version_key i) (instance_entry e i) (zk_nodes s),
       running_instances := running_instances s - {i},
       trace := trace s @ [UnregisterInstance i]\<rparr>"

text \<open>
  \<open>register_instance\<close>: create the node with the revision as payload, or set the payload
  on \<open>NodeExistsError\<close>; then add the instance to \<open>running_instances\<close>. Any other exception
  of \<open>create\<close>, and any of \<open>set\<close>, leaves the function before the instance is added.
\<close>

definition register_instance :: "env \<Rightarrow> state \<Rightarrow> Instance \<Rightarrow> (error + unit) \<times> state" where
  "register_instance e s i =
     (let s1 = emit [RegisterInstance i] s;
          written =
            (case zk_create (version_key i) (instance_entry e i) (revision i) (zk_nodes s) of
               Inl err \<Rightarrow>
                 if err = NodeExistsError
                 then zk_set (version_key i) (instance_entry e i) (revision i) (zk_nodes s)
                 else Inl err
             | Inr z \<Rightarrow> Inr z)
      in case written of
           Inl err \<Rightarrow> (Inl err, s1)
         | Inr z \<Rightarrow>
             (Inr (), s1\<lparr>zk_nodes := z, running_instances := insert i (running_instances s1)\<rparr>))"











section \<open>Health probe\<close>

text \<open>
  \<open>NoRedirection.http_response\<close> hands the response back as it came, whatever its status:
  no error handler and no redirect handler sees it, so one \<open>open\<close> is one request.
\<close>

definition http_response :: "string \<Rightarrow> open_result \<Rightarrow> open_result" where
  "http_response request response = response"

definition opener_open :: "env \<Rightarrow> string \<Rightarrow> nat \<Rightarrow> open_result" where
  "opener_open e url n = http_response url (url_open e url n)"

text \<open>
  The loop of \<open>wait_on_app\<close>. \<open>retries\<close> is only decremented in the \<open>except IOError\<close>
  branch, which is followed by the sleep; a response of any status returns \<open>True\<close> (a status
  other than 200 is logged). When \<open>retries\<close> reaches zero the error is logged and the
  result is \<open>False\<close>.
\<close>

fun wait_loop :: "env \<Rightarrow> string \<Rightarrow> nat \<Rightarrow> nat \<Rightarrow> state \<Rightarrow> bool \<times> state" where
  "wait_loop e url 0 n s =
     (False, emit [LogError (''Application did not come up on '' @ url @ '' after ''
                     @ py_str START_APP_TIMEOUT @ '' seconds'')] s)"
| "wait_loop e url (Suc retries) n s =
     (case opener_open e url n of
        Response code \<Rightarrow>
          (True, emit (UrlOpen url #
                   (if code \<noteq> HTTP_OK then [LogWarning (url @ '' returned '' @ py_str code)] else [])) s)
      | IOError \<Rightarrow> wait_loop e url retries (Suc n) (emit [UrlOpen url, Sleep BACKOFF_TIME] s))"

text \<open>
  \<open>retries = math.ceil(START_APP_TIMEOUT / BACKOFF_TIME)\<close>: both are integers, the division
  is Python 2's integer division, and the ceiling of an integer is that integer.
\<close>

definition probe_url :: "env \<Rightarrow> int \<Rightarrow> string" where
  "probe_url e prt = ''http://'' @ private_ip e @ '':'' @ py_str prt @ FETCH_PATH"

definition wait_on_app :: "env \<Rightarrow> state \<Rightarrow> int \<Rightarrow> bool \<times> state" where
  "wait_on_app e s prt =
     wait_loop e (probe_url e prt) (nat (START_APP_TIMEOUT div BACKOFF_TIME)) 0 s"

definition add_routing :: "env \<Rightarrow> state \<Rightarrow> Instance \<Rightarrow> (error + unit) \<times> state" where
  "add_routing e s i =
     (case wait_on_app e s (port i) of
        (start_successful, s1) \<Rightarrow>
          if \<not> start_successful
          then (Inr (), emit [LogWarning (instance_repr i @ '' did not come up in time'')] s1)
          else register_instance e s1 i)"

section \<open>API-server pool\<close>

text \<open>The \<open>for port in api_servers.values()\<close> loop of \<open>ensure_api_server\<close>.\<close>

fun next_port :: "int \<Rightarrow> int list \<Rightarrow> int" where
  "next_port server_port [] = server_port"
| "next_port server_port (p # ps) =
     next_port (if p \<le> server_port then p - 1 else server_port) ps"

definition ensure_api_server :: "env \<Rightarrow> state \<Rightarrow> string \<Rightarrow> (error + int) \<times> state" where
  "ensure_api_server e s project_id =
     (case map_of (api_servers s) project_id of
        Some cached \<Rightarrow> (Inr cached, s)
      | None \<Rightarrow>
          (let server_port = next_port MAX_API_SERVER_PORT (map snd (api_servers s));
               watch = api_server_watch project_id;
               full_watch = api_server_full_watch project_id server_port;
               s1 = emit [CreateConfigFile watch server_port, MonitStart full_watch] s
           in if \<not> monit_start e full_watch
              then (Inl (AssertionError (''Monit was unable to start '' @ watch)), s1)
              else (Inr server_port,
                    s1\<lparr>api_servers := dict_set project_id server_port (api_servers s1)\<rparr>)))"

text \<open>
  \<open>unmonitor(process_name, retries=5)\<close>: a 404 becomes \<open>ProcessNotFound\<close>, a 503 is tried
  again until \<open>retries\<close> would fall below zero, every other HTTP error is raised again.
  The error raised again is the \<open>tornado.httpclient.HTTPError\<close> of the fetch, with its code
  and message; the module imports no other \<open>HTTPError\<close>, so it is of the same class as the
  one \<open>stop_app_instance\<close> and the handlers raise themselves.
\<close>

function unmonitor :: "env \<Rightarrow> string \<Rightarrow> int \<Rightarrow> nat \<Rightarrow> state \<Rightarrow> (error + unit) \<times> state" where
  "unmonitor e process_name retries n s =
     (case monit_fetch e process_name n of
        Fetched \<Rightarrow> (Inr (), emit [MonitUnmonitor process_name] s)
      | FetchError code message \<Rightarrow>
          if code = 404
          then (Inl (ProcessNotFound (process_name @ '' not listed by Monit'')),
                emit [MonitUnmonitor process_name] s)
          else if code = 503 \<and> \<not> retries - 1 < 0
          then unmonitor e process_name (retries - 1) (Suc n) (emit [MonitUnmonitor process_name] s)
          else (Inl (HTTPError code message), emit [MonitUnmonitor process_name] s))"
  by pat_completeness auto
termination
  by (relation "measure (\<lambda>(e, process_name, retries, n, s). nat retries)") auto

declare unmonitor.simps [simp del]

text \<open>
  \<open>unmonitor_and_terminate(watch)\<close>: on \<open>ProcessNotFound\<close> it returns at once; otherwise the
  configuration is removed and \<open>stop_instance\<close> is spawned.
\<close>

definition unmonitor_and_terminate :: "env \<Rightarrow> state \<Rightarrow> string \<Rightarrow> (error + unit) \<times> state" where
  "unmonitor_and_terminate e s watch =
     (case unmonitor e watch 5 0 s of
        (Inl (ProcessNotFound msg), s1) \<Rightarrow> (Inr (), s1)
      | (Inl err, s1) \<Rightarrow> (Inl err, s1)
      | (Inr u, s1) \<Rightarrow>
          (Inr (), spawn_callback (StopInstance watch) (emit [RemoveConfiguration watch] s1)))"

definition stop_api_server :: "env \<Rightarrow> state \<Rightarrow> string \<Rightarrow> (error + unit) \<times> state" where
  "stop_api_server e s project_id =
     (case map_of (api_servers s) project_id of
        None \<Rightarrow> (Inr (), s)
      | Some prt \<Rightarrow>
          (case unmonitor_and_terminate e s (API_SERVER_PREFIX @ project_id @ ''-'' @ py_str prt) of
             (Inl err, s1) \<Rightarrow> (Inl err, s1)
           | (Inr u, s1) \<Rightarrow> (Inr (), s1\<lparr>api_servers := dict_del project_id (api_servers s1)\<rparr>)))"

section \<open>Lifecycle engine\<close>

text \<open>
  \<open>projects_manager[project_id][service_id]\<close> and \<open>service_manager[version_id]\<close>: a
  \<open>KeyError\<close> at any level is the \<open>except KeyError\<close> branch of \<open>start_app\<close>.
\<close>

definition lookup_version :: "env \<Rightarrow> string \<Rightarrow> string \<Rightarrow> string \<Rightarrow> version_details option" where
  "lookup_version e project_id service_id version_id =
     (case projects_manager e project_id of
        None \<Rightarrow> None
      | Some project_manager \<Rightarrow>
          (case project_manager service_id of
             None \<Rightarrow> None
           | Some service_manager \<Rightarrow> service_manager version_id))"

definition max_memory_of :: "env \<Rightarrow> version_details \<Rightarrow> int" where
  "max_memory_of e vd =
     (case instance_class vd of
        None \<Rightarrow> default_max_appserver_memory e
      | Some c \<Rightarrow>
          (case INSTANCE_CLASSES e c of
             None \<Rightarrow> default_max_appserver_memory e
           | Some m \<Rightarrow> m))"

text \<open>
  The part of \<open>start_app\<close> from \<open>create_config_file\<close> on: write the configuration, start
  the watch (the \<open>assert\<close>), ensure the version node, spawn \<open>add_routing\<close>, set up log
  rotation. \<open>setup_logrotate\<close> always returns \<open>True\<close>.
\<close>

definition start_watch ::
  "env \<Rightarrow> state \<Rightarrow> string \<Rightarrow> string \<Rightarrow> string \<Rightarrow> int \<Rightarrow> (error + unit) \<times> state" where
  "start_watch e s vk project_id rk prt =
     (let watch = instance_watch rk;
          full_watch = instance_full_watch rk prt;
          s1 = emit [CreateConfigFile watch prt, MonitStart full_watch] s
      in if \<not> monit_start e full_watch
         then (Inl (AssertionError (''Monit was unable to start '' @ project_id @ '':'' @ py_str prt)), s1)
         else (let s2 = emit [ZkEnsurePath vk] (s1\<lparr>zk_nodes := zk_ensure_path vk (zk_nodes s1)\<rparr>);
                   s3 = spawn_callback (AddRouting (Instance rk prt)) s2;
                   log_size = (if project_id = DASHBOARD_PROJECT_ID e
                               then DASHBOARD_LOG_SIZE e else APP_LOG_SIZE e)
               in (Inr (), emit [SetupLogrotate project_id log_size] s3)))"

text \<open>
  The middle of \<open>start_app\<close>, from \<open>ensure_api_server\<close> to the choice of the start
  command by runtime. The check of the runtime, and of the heap left to a Java application,
  comes after the API server and the source have been ensured; an exception of
  \<open>source_manager.ensure_source\<close> ends the start before them.
\<close>

definition start_revision ::
  "env \<Rightarrow> state \<Rightarrow> string \<Rightarrow> string \<Rightarrow> string \<Rightarrow> string \<Rightarrow> int \<Rightarrow> int
     \<Rightarrow> (error + unit) \<times> state" where
  "start_revision e s vk project_id rk rt max_memory prt =
     (case ensure_api_server e s project_id of
        (Inl err, s1) \<Rightarrow> (Inl err, s1)
      | (Inr api_server_port, s1) \<Rightarrow>
          (let s2 = emit [ApiServerEnsured project_id api_server_port, EnsureSource rk] s1
           in case ensure_source e rk of
                Some message \<Rightarrow> (Inl (ExternalError message), s2)
              | None \<Rightarrow>
              if rt = PYTHON27 \<or> rt = GO \<or> rt = PHP
              then start_watch e s2 vk project_id rk prt
              else if rt = JAVA
              then (if max_memory - 250 \<le> 0
                    then (Inl (BadConfigurationException
                           ''Memory for Java applications must be greater than 250MB''), s2)
                    else start_watch e s2 vk project_id rk prt)
              else (Inl (BadConfigurationException
                     (''Unknown runtime '' @ rt @ '' for '' @ project_id)), s2)))"

text \<open>
  \<open>start_app(version_key, config)\<close>: the two checks of the request body, the unpacking of
  the version key into exactly three parts (anything else is a \<open>ValueError\<close>), the check of
  the project id, the lookup of the version, the read of the runtime parameters
  (\<open>ConfigInaccessible\<close> when the deployment configuration cannot be read), and then the
  steps above.
\<close>

definition start_app :: "env \<Rightarrow> state \<Rightarrow> string \<Rightarrow> config \<Rightarrow> (error + unit) \<times> state" where
  "start_app e s vk cfg =
     (case app_port cfg of
        None \<Rightarrow> (Inl (BadConfigurationException ''app_port is required''), s)
      | Some prt \<Rightarrow>
     (case login_server cfg of
        None \<Rightarrow> (Inl (BadConfigurationException ''login_server is required''), s)
      | Some login \<Rightarrow>
     if login = [] then (Inl (BadConfigurationException ''login_server is required''), s)
     else
     (case py_split VERSION_PATH_SEPARATOR vk of
        [project_id, service_id, version_id] \<Rightarrow>
          if \<not> is_app_name_valid e project_id
          then (Inl (BadConfigurationException (''Invalid project ID: '' @ project_id)), s)
          else
          (case lookup_version e project_id service_id version_id of
             None \<Rightarrow> (Inl (BadConfigurationException ''Version not found''), s)
           | Some vd \<Rightarrow>
               if \<not> config_accessible e then (Inl ConfigInaccessible, s)
               else
               start_revision e s vk project_id
                 (py_join [VERSION_PATH_SEPARATOR]
                    [project_id, service_id, version_id, py_str (revision_id vd)])
                 (runtime vd) (max_memory_of e vd) prt)
      | _ \<Rightarrow> (Inl ValueError, s))))"

text \<open>
  The pattern \<open>'{}{}.*-{}'.format(MONIT_INSTANCE_PREFIX, version_key, port)\<close> used with
  \<open>re.match\<close>: the match starts at the beginning of the entry and need not reach its end.
  A version key is made of lower-case letters, digits, hyphens and underscores (the URL
  routes admit nothing else), all of which stand for themselves in a pattern; \<open>.\<close> is any
  character but a newline.
\<close>

fun dotstar_then :: "string \<Rightarrow> string \<Rightarrow> bool" where
  "dotstar_then lit [] = (lit = [])"
| "dotstar_then lit (c # cs) =
     (startswith (c # cs) lit \<or> (c \<noteq> CHR 0x0A \<and> dotstar_then lit cs))"

definition instance_key_re_match :: "string \<Rightarrow> int \<Rightarrow> string \<Rightarrow> bool" where
  "instance_key_re_match vk prt entry =
     (startswith entry (MONIT_INSTANCE_PREFIX @ vk) \<and>
      dotstar_then (CHR ''-'' # py_str prt) (drop (length (MONIT_INSTANCE_PREFIX @ vk)) entry))"

text \<open>
  What \<open>stop_app_instance\<close> and \<open>stop_app\<close> do once the instances are stopped: stop the API
  server when \<open>remaining_instances\<close> is empty.
\<close>

definition stop_api_server_if_last ::
  "env \<Rightarrow> state \<Rightarrow> string \<Rightarrow> string list \<Rightarrow> (error + unit) \<times> state" where
  "stop_api_server_if_last e s project_id remaining_instances =
     (if remaining_instances = [] then stop_api_server e s project_id else (Inr (), s))"

text \<open>The last two steps of both stop paths: reload Monit, clean the old sources.\<close>

definition reload_and_clean :: "env \<Rightarrow> state \<Rightarrow> (error + unit) \<times> state" where
  "reload_and_clean e s =
     (case monit_reload e of
        Some message \<Rightarrow> (Inl (ExternalError message), emit [MonitReload] s)
      | None \<Rightarrow>
          (case clean_old_sources e of
             Some message \<Rightarrow> (Inl (ExternalError message), emit [MonitReload, CleanOldSources] s)
           | None \<Rightarrow> (Inr (), emit [MonitReload, CleanOldSources] s)))"

definition stop_app_instance :: "env \<Rightarrow> state \<Rightarrow> string \<Rightarrow> int \<Rightarrow> (error + unit) \<times> state" where
  "stop_app_instance e s vk prt =
     (let project_id = hd (py_split VERSION_PATH_SEPARATOR vk)
      in if \<not> is_app_name_valid e project_id
         then (Inl (BadConfigurationException (''Invalid project ID: '' @ project_id)), s)
         else
         (case find (instance_key_re_match vk prt) (monit_entries e) of
            None \<Rightarrow>
              (Inl (HTTPError INTERNAL_ERROR
                     (''No entries exist for '' @ vk @ '':'' @ py_str prt)), s)
          | Some watch \<Rightarrow>
              (case parse_instance_entry watch of
                 Inl err \<Rightarrow> (Inl err, s)
               | Inr (rk, p) \<Rightarrow>
                   (case unmonitor_and_terminate e (unregister_instance e s (Instance rk p)) watch of
                      (Inl err, s1) \<Rightarrow> (Inl err, s1)
                    | (Inr u, s1) \<Rightarrow>
                        (let project_prefix = MONIT_INSTANCE_PREFIX @ project_id;
                             remaining_instances =
                               filter (\<lambda>entry. startswith entry project_prefix
                                         \<and> \<not> instance_key_re_match vk prt entry)
                                 (monit_entries e)
                         in case stop_api_server_if_last e s1 project_id remaining_instances of
                              (Inl err, s2) \<Rightarrow> (Inl err, s2)
                            | (Inr u, s2) \<Rightarrow> reload_and_clean e s2)))))"

text \<open>The \<open>for entry in version_entries\<close> loop of \<open>stop_app\<close>.\<close>

fun stop_entries :: "env \<Rightarrow> string list \<Rightarrow> state \<Rightarrow> (error + unit) \<times> state" where
  "stop_entries e [] s = (Inr (), s)"
| "stop_entries e (entry # rest) s =
     (case parse_instance_entry entry of
        Inl err \<Rightarrow> (Inl err, s)
      | Inr (rk, p) \<Rightarrow>
          (case unmonitor_and_terminate e (unregister_instance e s (Instance rk p)) entry of
             (Inl err, s1) \<Rightarrow> (Inl err, s1)
           | (Inr u, s1) \<Rightarrow> stop_entries e rest s1))"

text \<open>
  \<open>remove_logrotate\<close> returns \<open>False\<close> when \<open>os.remove\<close> raises \<open>OSError\<close>; \<open>stop_app\<close>
  calls it only for a project that is no longer in the projects model.
\<close>

definition remove_logrotate_if_gone :: "env \<Rightarrow> state \<Rightarrow> string \<Rightarrow> state" where
  "remove_logrotate_if_gone e s project_id =
     (if projects_manager e project_id = None
      then (if os_remove_ok e project_id
            then emit [RemoveLogrotate project_id] s
            else emit [RemoveLogrotate project_id,
                       LogError (''Error while removing log rotation for application: '' @ project_id)] s)
      else s)"

definition stop_app :: "env \<Rightarrow> state \<Rightarrow> string \<Rightarrow> (error + unit) \<times> state" where
  "stop_app e s vk =
     (let project_id = hd (py_split VERSION_PATH_SEPARATOR vk)
      in if \<not> is_app_name_valid e project_id
         then (Inl (BadConfigurationException (''Invalid project ID: '' @ project_id)), s)
         else
         (let version_group = MONIT_INSTANCE_PREFIX @ vk;
              version_entries = filter (\<lambda>entry. startswith entry version_group) (monit_entries e)
          in case stop_entries e version_entries s of
               (Inl err, s1) \<Rightarrow> (Inl err, s1)
             | (Inr u, s1) \<Rightarrow>
                 (let project_prefix = MONIT_INSTANCE_PREFIX @ project_id;
                      remaining_instances =
                        filter (\<lambda>entry. startswith entry project_prefix
                                  \<and> entry \<notin> set version_entries)
                          (monit_entries e)
                  in case stop_api_server_if_last e s1 project_id remaining_instances of
                       (Inl err, s2) \<Rightarrow> (Inl err, s2)
                     | (Inr u, s2) \<Rightarrow>
                         reload_and_clean e (remove_logrotate_if_gone e s2 project_id))))"

section \<open>HTTP surface and event loop\<close>

text \<open>
  The handlers turn a \<open>BadConfigurationException\<close> into an \<open>HTTPError\<close> with
  \<open>HTTPCodes.BAD_REQUEST\<close>; every other exception passes through. A body that is not JSON
  (\<open>None\<close>) is a bad request as well.
\<close>

definition bad_request :: "(error + unit) \<times> state \<Rightarrow> (error + unit) \<times> state" where
  "bad_request r =
     (case r of
        (Inl (BadConfigurationException message), s) \<Rightarrow> (Inl (HTTPError BAD_REQUEST message), s)
      | _ \<Rightarrow> r)"

definition post :: "env \<Rightarrow> state \<Rightarrow> string \<Rightarrow> config option \<Rightarrow> (error + unit) \<times> state" where
  "post e s vk body =
     (case body of
        None \<Rightarrow> (Inl (HTTPError BAD_REQUEST ''Payload must be valid JSON''), s)
      | Some cfg \<Rightarrow> bad_request (start_app e s vk cfg))"

definition delete_version :: "env \<Rightarrow> state \<Rightarrow> string \<Rightarrow> (error + unit) \<times> state" where
  "delete_version e s vk = bad_request (stop_app e s vk)"

definition delete_instance :: "env \<Rightarrow> state \<Rightarrow> string \<Rightarrow> int \<Rightarrow> (error + unit) \<times> state" where
  "delete_instance e s vk prt = bad_request (stop_app_instance e s vk prt)"

text \<open>
  The event loop runs a spawned callback after the coroutine that spawned it has returned:
  \<open>add_routing\<close> for a started instance, \<open>stop_instance\<close> (not among the sources; it
  terminates the process) for a stopped one. An exception that leaves a callback goes to
  the event loop, not to the request that spawned it; the state is as the callback left it.
\<close>

definition run_callback :: "env \<Rightarrow> callback \<Rightarrow> state \<Rightarrow> state" where
  "run_callback e cb s =
     (case cb of
        AddRouting i \<Rightarrow> snd (add_routing e s i)
      | StopInstance watch \<Rightarrow> emit [TerminateProcess watch] s)"

definition run_pending :: "env \<Rightarrow> state \<Rightarrow> state" where
  "run_pending e s = fold (run_callback e) (pending s) (s\<lparr>pending := []\<rparr>)"

text \<open>One start, from the call of \<open>start_app\<close> to the end of the callback it spawned.\<close>

definition start :: "env \<Rightarrow> state \<Rightarrow> string \<Rightarrow> config \<Rightarrow> (error + unit) \<times> state" where
  "start e s vk cfg = (case start_app e s vk cfg of (r, s1) \<Rightarrow> (r, run_pending e s1))"

section \<open>Reading a trace\<close>

text \<open>
  The steps of one start in the order the lifecycle engine lists them: API server ensured,
  source ensured, configuration written, watch started, version node ensured, probe
  spawned, log rotation set up.
\<close>

definition start_steps :: "string \<Rightarrow> int \<Rightarrow> string \<Rightarrow> int \<Rightarrow> string \<Rightarrow> int \<Rightarrow> event list" where
  "start_steps project_id api_server_port rk prt vk log_size =
     [ApiServerEnsured project_id api_server_port,
      EnsureSource rk,
      CreateConfigFile (instance_watch rk) prt,
      MonitStart (instance_full_watch rk prt),
      ZkEnsurePath vk,
      SpawnCallback (AddRouting (Instance rk prt)),
      SetupLogrotate project_id log_size]"

text \<open>
  \<open>before A B t\<close>: reading the trace from its start, no event of kind \<open>B\<close> is met unless
  an event of kind \<open>A\<close> has been met first.
\<close>

fun before :: "(event \<Rightarrow> bool) \<Rightarrow> (event \<Rightarrow> bool) \<Rightarrow> event list \<Rightarrow> bool" where
  "before A B [] = True"
| "before A B (x # xs) = (A x \<or> (\<not> B x \<and> before A B xs))"

text \<open>
  The result and the events of the loop of \<open>wait_on_app\<close>, each on its own: the loop reads
  nothing of the state.
\<close>

fun probe_result :: "env \<Rightarrow> string \<Rightarrow> nat \<Rightarrow> nat \<Rightarrow> bool" where
  "probe_result e url 0 n = False"
| "probe_result e url (Suc retries) n =
     (case opener_open e url n of
        Response code \<Rightarrow> True
      | IOError \<Rightarrow> probe_result e url retries (Suc n))"

fun probe_trace :: "env \<Rightarrow> string \<Rightarrow> nat \<Rightarrow> nat \<Rightarrow> event list" where
  "probe_trace e url 0 n =
     [LogError (''Application did not come up on '' @ url @ '' after ''
                  @ py_str START_APP_TIMEOUT @ '' seconds'')]"
| "probe_trace e url (Suc retries) n =
     (case opener_open e url n of
        Response code \<Rightarrow>
          UrlOpen url
            # (if code \<noteq> HTTP_OK then [LogWarning (url @ '' returned '' @ py_str code)] else [])
      | IOError \<Rightarrow> UrlOpen url # Sleep BACKOFF_TIME # probe_trace e url retries (Suc n))"

text \<open>The events a probe leaves: requests, sleeps and log lines.\<close>

fun is_probe_event :: "event \<Rightarrow> bool" where
  "is_probe_event (UrlOpen u) = True"
| "is_probe_event (Sleep t) = True"
| "is_probe_event (LogWarning m) = True"
| "is_probe_event (LogError m) = True"
| "is_probe_event ev = False"

text \<open>
  What \<open>ensure_api_server\<close> leaves in the trace when it starts a new API server, and the
  forms the trace of \<open>start_app\<close> can take: the whole list of steps when \<open>add_routing\<close>
  was spawned; otherwise nothing beyond the API server's events, or the steps up to the
  source, or up to the start of the watch.
\<close>

definition api_steps :: "string \<Rightarrow> int \<Rightarrow> event list" where
  "api_steps pr ap = [CreateConfigFile (api_server_watch pr) ap, MonitStart (api_server_full_watch pr ap)]"

definition shape ::
  "event list \<Rightarrow> event list \<Rightarrow> error + unit \<Rightarrow> bool \<Rightarrow> event list \<Rightarrow> bool" where
  "shape A st r spawned evs =
     (if spawned
      then r = Inr () \<and> evs = A @ st
      else r \<noteq> Inr () \<and> (evs = A \<or> evs = A @ take 2 st \<or> evs = A @ take 4 st))"



text \<open>Kinds of events the ordering of a start is about.\<close>

fun is_api_ensured :: "event \<Rightarrow> bool" where
  "is_api_ensured (ApiServerEnsured pr ap) = True"
| "is_api_ensured ev = False"

fun is_instance_config :: "event \<Rightarrow> bool" where
  "is_instance_config (CreateConfigFile w p) = startswith w MONIT_INSTANCE_PREFIX"
| "is_instance_config ev = False"

fun is_instance_start :: "event \<Rightarrow> bool" where
  "is_instance_start (MonitStart w) = startswith w MONIT_INSTANCE_PREFIX"
| "is_instance_start ev = False"

fun is_register :: "event \<Rightarrow> bool" where
  "is_register (RegisterInstance i) = True"
| "is_register ev = False"

section \<open>An example deployment\<close>

text \<open>
  A node at 10.0.0.2 whose projects model holds version \<open>proj_default_v1\<close> (python27,
  revision 3). Monit starts every watch and answers every unmonitor request, and the
  application answers the third probe.
\<close>

definition env0 :: env where
  "env0 = \<lparr> private_ip = ''10.0.0.2'',
            is_app_name_valid = (\<lambda>n. n \<noteq> [] \<and> list_all (\<lambda>c. c \<noteq> CHR ''!'') n),
            projects_manager =
              (\<lambda>p. if p = ''proj''
                   then Some (\<lambda>sv. if sv = ''default''
                          then Some (\<lambda>v. if v = ''v1''
                                 then Some \<lparr> runtime = ''python27'', revision_id = 3,
                                            source_url = ''http://10.0.0.1/proj.tar.gz'',
                                            instance_class = None \<rparr>
                                 else None)
                          else None)
                   else None),
            default_max_appserver_memory = 400,
            INSTANCE_CLASSES = (\<lambda>c. None),
            DASHBOARD_PROJECT_ID = ''appscaledashboard'',
            DASHBOARD_LOG_SIZE = 10,
            APP_LOG_SIZE = 250,
            monit_start = (\<lambda>w. True),
            monit_fetch = (\<lambda>w n. Fetched),
            monit_entries = [''instance_proj_default_v1_3-8080'', ''api-server_proj-19999''],
            url_open = (\<lambda>u n. if n < 2 then IOError else Response 200),
            os_remove_ok = (\<lambda>p. True),
            config_accessible = True,
            ensure_source = (\<lambda>rk. None),
            monit_reload = None,
            clean_old_sources = None \<rparr>"

definition s0 :: state where
  "s0 = \<lparr> api_servers = [], running_instances = {}, zk_nodes = [], pending = [], trace = [] \<rparr>"

text \<open>The request body of the start-python scenario.\<close>

definition cfg0 :: config where
  "cfg0 = \<lparr> app_port = Some 8080, login_server = Some ''10.0.0.1'' \<rparr>"

text \<open>The same node with two API servers already assigned.\<close>

definition s1 :: state where
  "s1 = s0\<lparr>api_servers := [(''a'', 19997), (''b'', 19998)]\<rparr>"

text \<open>The node with a registry to reconcile, and the live set to reconcile it with.\<close>

definition s2 :: state where
  "s2 = s0\<lparr>zk_nodes := [(''proj_default_v1'',
              [(''10.0.0.2:8080'', ''3''), (''10.0.0.3:8080'', ''3''), (''10.0.0.2:8081'', ''3'')])]\<rparr>"


text \<open>
  The example node with a version whose runtime is unknown and a Monit that starts nothing;
  and with a Java version whose instance class allows 200 MB.
\<close>

definition env_ruby :: env where
  "env_ruby = env0\<lparr>
      projects_manager :=
        (\<lambda>p. if p = ''proj''
             then Some (\<lambda>sv. if sv = ''default''
                    then Some (\<lambda>v. if v = ''v1''
                           then Some \<lparr> runtime = ''ruby'', revision_id = 3,
                                      source_url = ''http://10.0.0.1/proj.tar.gz'',
                                      instance_class = None \<rparr>
                           else None)
                    else None)
             else None),
      monit_start := (\<lambda>w. False)\<rparr>"

definition env_java :: env where
  "env_java = env0\<lparr>
      projects_manager :=
        (\<lambda>p. if p = ''proj''
             then Some (\<lambda>sv. if sv = ''default''
                    then Some (\<lambda>v. if v = ''v1''
                           then Some \<lparr> runtime = ''java'', revision_id = 3,
                                      source_url = ''http://10.0.0.1/proj.tar.gz'',
                                      instance_class = Some ''F1'' \<rparr>
                           else None)
                    else None)
             else None),
      INSTANCE_CLASSES := (\<lambda>c. if c = ''F1'' then Some 200 else None)\<rparr>"

text \<open>
  The example node with its API server on record; a Monit that knows none of the watches
  (404 to every unmonitor request), and one that answers every request with 500.
\<close>

definition s_proj :: state where
  "s_proj = s0\<lparr>api_servers := [(''proj'', 19999)]\<rparr>"

definition env404 :: env where
  "env404 = env0\<lparr>monit_fetch := (\<lambda>w n. FetchError 404 ''Not Found'')\<rparr>"


text \<open>
  A node that runs one instance of project \<open>foo\<close> and one of project \<open>foobar\<close>, each
  project with its API server; and a node that runs two instances of one revision of
  \<open>proj\<close>, on ports 10240 and 10241.
\<close>

definition env_foo :: env where
  "env_foo = env0\<lparr>monit_entries :=
      [''instance_foo_default_v1_1-8080'', ''instance_foobar_default_v1_1-8081'',
       ''api-server_foo-19999'', ''api-server_foobar-19998'']\<rparr>"

definition s_foo :: state where
  "s_foo = s0\<lparr>api_servers := [(''foo'', 19999), (''foobar'', 19998)]\<rparr>"

definition env_two :: env where
  "env_two = env0\<lparr>monit_entries :=
      [''instance_proj_default_v1_3-10240'', ''instance_proj_default_v1_3-10241'',
       ''api-server_proj-19999'']\<rparr>"

section \<open>Facts about the string primitives\<close>

lemma py_rsplit1_append:
  assumes "sep \<notin> set t"
  shows "py_rsplit1 sep (s @ sep # t) = [s, t]"
proof -
  have r: "rev (s @ sep # t) = rev t @ sep # rev s" by simp
  have tw: "takeWhile (\<lambda>c. c \<noteq> sep) (rev t @ sep # rev s) = rev t"
    using assms by (auto simp: takeWhile_tail)
  show ?thesis
    unfolding py_rsplit1_def Let_def r tw by simp
qed

lemma of_char_digit_char: "d < 10 \<Longrightarrow> (of_char (digit_char d) :: nat) = 48 + d"
  unfolding digit_char_def by (simp only: of_char_of) simp

lemma is_digit_not_minus: "is_digit c \<Longrightarrow> c \<noteq> CHR ''-''"
  by (rule notI) (simp add: is_digit_def)

lemma is_digit_not_plus: "is_digit c \<Longrightarrow> c \<noteq> CHR ''+''"
  by (rule notI) (simp add: is_digit_def)

lemma is_digit_not_space: "is_digit c \<Longrightarrow> \<not> is_space c"
  unfolding is_digit_def is_space_def by (rule notI) (elim conjE insertE emptyE; simp)

lemma digit_char_props:
  assumes "d < 10"
  shows "is_digit (digit_char d)" "digit_val (digit_char d) = d"
  using assms by (simp_all add: is_digit_def digit_val_def of_char_digit_char)

lemma str_nat_digits: "list_all is_digit (str_nat n)"
proof (induction n rule: str_nat.induct)
  case (1 n)
  show ?case
  proof (cases "n < 10")
    case True
    then show ?thesis by (subst str_nat.simps) (simp add: digit_char_props)
  next
    case False
    with 1 show ?thesis by (subst str_nat.simps) (simp add: digit_char_props)
  qed
qed

lemma str_nat_nonempty: "str_nat n \<noteq> []"
  by (subst str_nat.simps) simp

lemma nat_of_digits_snoc:
  "nat_of_digits (ds @ [c]) = 10 * nat_of_digits ds + digit_val c"
  by (simp add: nat_of_digits_def)

lemma nat_of_digits_str_nat: "nat_of_digits (str_nat n) = n"
proof (induction n rule: str_nat.induct)
  case (1 n)
  show ?case
  proof (cases "n < 10")
    case True
    then show ?thesis
      by (subst str_nat.simps) (simp add: nat_of_digits_def digit_char_props)
  next
    case False
    with 1 show ?thesis
      by (subst str_nat.simps) (simp add: nat_of_digits_snoc digit_char_props)
  qed
qed

lemma dropWhile_none: "\<forall>c \<in> set xs. \<not> P c \<Longrightarrow> dropWhile P xs = xs"
  by (cases xs) auto

lemma py_strip_digits:
  assumes "list_all is_digit ds"
  shows "py_strip ds = ds"
proof -
  have a: "\<forall>c \<in> set ds. \<not> is_space c"
    using assms is_digit_not_space by (auto simp: list_all_iff)
  then have b: "\<forall>c \<in> set (rev ds). \<not> is_space c" by simp
  show ?thesis
    unfolding py_strip_def by (simp only: dropWhile_none [OF a] dropWhile_none [OF b] rev_rev_ident)
qed

lemma py_int_digits:
  assumes "ds \<noteq> []" "list_all is_digit ds"
  shows "py_int ds = Inr (int (nat_of_digits ds))"
proof -
  have "is_digit (hd ds)" using assms by (cases ds) auto
  then have "hd ds \<noteq> CHR ''-''" "hd ds \<noteq> CHR ''+''"
    using is_digit_not_minus is_digit_not_plus by auto
  then show ?thesis
    using assms by (simp add: py_int_def py_strip_digits Let_def)
qed

text \<open>\<open>int(str(i)) == i\<close> for a number that is not negative, and \<open>str(i)\<close> has no hyphen.\<close>

lemma py_int_py_str: "0 \<le> i \<Longrightarrow> py_int (py_str i) = Inr i"
  by (simp add: py_str_def py_int_digits str_nat_nonempty str_nat_digits nat_of_digits_str_nat)

lemma hyphen_notin_py_str:
  assumes "0 \<le> i"
  shows "CHR ''-'' \<notin> set (py_str i)"
proof -
  have "py_str i = str_nat (nat i)"
    using assms by (simp add: py_str_def)
  moreover have "\<forall>c \<in> set (str_nat (nat i)). is_digit c"
    using str_nat_digits [of "nat i"] by (simp add: list_all_iff)
  ultimately show ?thesis
    using is_digit_not_minus by metis
qed

lemma py_split_nonempty: "py_split sep s \<noteq> []"
  by (induction s) (auto split: list.splits)

section \<open>Watch names are parsed back into what they were built from\<close>

lemma api_server_info_full_watch:
  assumes "0 \<le> p"
  shows "api_server_info (api_server_full_watch project_id p) = Inr (project_id, p)"
proof -
  have "api_server_full_watch project_id p
          = (API_SERVER_PREFIX @ project_id) @ CHR ''-'' # py_str p"
    by (simp add: api_server_full_watch_def api_server_watch_def)
  then have "py_rsplit1 CHR ''-'' (api_server_full_watch project_id p)
          = [API_SERVER_PREFIX @ project_id, py_str p]"
    using py_rsplit1_append [OF hyphen_notin_py_str [OF assms], of "API_SERVER_PREFIX @ project_id"]
    by (simp only:)
  then show ?thesis
    using assms by (simp add: api_server_info_def py_int_py_str)
qed

lemma parse_instance_entry_full_watch:
  assumes "0 \<le> p"
  shows "parse_instance_entry (instance_full_watch rk p) = Inr (rk, p)"
proof -
  have "drop (length MONIT_INSTANCE_PREFIX) (instance_full_watch rk p)
          = rk @ CHR ''-'' # py_str p"
    by (simp add: instance_full_watch_def instance_watch_def)
  then have "py_rsplit1 CHR ''-'' (drop (length MONIT_INSTANCE_PREFIX) (instance_full_watch rk p))
          = [rk, py_str p]"
    using py_rsplit1_append [OF hyphen_notin_py_str [OF assms], of rk]
    by (simp only:)
  then show ?thesis
    using assms by (simp add: parse_instance_entry_def py_int_py_str)
qed

text \<open>
  Claim C9. Watch names round-trip. For every project id and every port (a port is not
  negative), the name \<open>ensure_api_server\<close> builds for the API-server watch carries the
  API-server prefix and \<open>api_server_info\<close>, the parse of \<open>populate_api_servers\<close>, gives back
  exactly the project id and the port. For every revision key and port, the name
  \<open>start_app\<close> builds for the instance watch carries the instance prefix and the parse of
  \<open>recover_state\<close> and of the stop paths gives back exactly the revision key and the port.
\<close>

theorem watch_names_round_trip:
  assumes "0 \<le> p"
  shows "startswith (api_server_full_watch project_id p) API_SERVER_PREFIX
       \<and> api_server_info (api_server_full_watch project_id p) = Inr (project_id, p)
       \<and> startswith (instance_full_watch rk p) MONIT_INSTANCE_PREFIX
       \<and> parse_instance_entry (instance_full_watch rk p) = Inr (rk, p)"
proof (intro conjI)
  show "startswith (api_server_full_watch project_id p) API_SERVER_PREFIX"
    by (simp add: startswith_def api_server_full_watch_def api_server_watch_def)
  show "api_server_info (api_server_full_watch project_id p) = Inr (project_id, p)"
    by (rule api_server_info_full_watch [OF assms])
  show "startswith (instance_full_watch rk p) MONIT_INSTANCE_PREFIX"
    by (simp add: startswith_def instance_full_watch_def instance_watch_def)
  show "parse_instance_entry (instance_full_watch rk p) = Inr (rk, p)"
    by (rule parse_instance_entry_full_watch [OF assms])
qed

theorem watch_names_round_trip_witness:
  "(0::int) \<le> 8080
   \<and> startswith (api_server_full_watch ''my-proj'' 8080) API_SERVER_PREFIX
   \<and> api_server_info (api_server_full_watch ''my-proj'' 8080) = Inr (''my-proj'', 8080)
   \<and> startswith (instance_full_watch ''proj_default_v1_3'' 8080) MONIT_INSTANCE_PREFIX
   \<and> parse_instance_entry (instance_full_watch ''proj_default_v1_3'' 8080)
        = Inr (''proj_default_v1_3'', 8080)"
  using watch_names_round_trip [of 8080 "''my-proj''" "''proj_default_v1_3''"] by simp

text \<open>
  The port has to be a port: \<open>str\<close> of a negative number begins with a hyphen, and the
  parse then splits one character too late.
\<close>

lemma parse_instance_entry_negative:
  "parse_instance_entry (instance_full_watch ''proj_default_v1_3'' (- 5))
     = Inr (''proj_default_v1_3-'', 5)"
  by code_simp

section \<open>API-server port assignment\<close>

lemma next_port_min:
  "next_port sp (p # ps) = min sp (Min (set (p # ps)) - 1)"
proof (induction ps arbitrary: sp p)
  case Nil
  then show ?case by simp
next
  case (Cons q qs)
  have "next_port sp (p # q # qs) = next_port (if p \<le> sp then p - 1 else sp) (q # qs)"
    by simp
  also have "\<dots> = min (if p \<le> sp then p - 1 else sp) (Min (set (q # qs)) - 1)"
    by (rule Cons.IH)
  also have "\<dots> = min sp (Min (set (p # q # qs)) - 1)"
    by (auto simp: min_def)
  finally show ?case .
qed

lemma next_port_spec:
  "next_port sp ps = (if ps = [] then sp else min sp (Min (set ps) - 1))"
proof (cases ps)
  case Nil
  then show ?thesis by simp
next
  case (Cons q qs)
  then show ?thesis using next_port_min [of sp q qs] by simp
qed

lemma dict_set_absent: "map_of kvs k = None \<Longrightarrow> dict_set k v kvs = kvs @ [(k, v)]"
  by (induction kvs) (auto split: if_splits)

text \<open>
  Claim C1, as amended. A project already in \<open>api_servers\<close> gets its cached port back and
  nothing else happens: the state, trace included, is unchanged, so no watch is created or
  started. For a project not in the map the port chosen is \<open>MAX_API_SERVER_PORT\<close> when no
  port is assigned and \<open>min(MAX_API_SERVER_PORT, min(assigned ports) - 1)\<close> otherwise; the
  configuration is written for it and Monit is asked to start the watch. When Monit starts
  the watch, that port is cached for the project and returned. When Monit does not, the
  \<open>assert\<close> fails: the call raises \<open>AssertionError\<close> and the map is left as it was.
\<close>

theorem ensure_api_server_port:
  "(map_of (api_servers s) project_id = Some cached \<longrightarrow>
      ensure_api_server e s project_id = (Inr cached, s))
 \<and> (map_of (api_servers s) project_id = None \<longrightarrow>
      (let assigned = snd ` set (api_servers s);
           server_port = (if assigned = {} then MAX_API_SERVER_PORT
                          else min MAX_API_SERVER_PORT (Min assigned - 1));
           watch = API_SERVER_PREFIX @ project_id;
           full_watch = watch @ ''-'' @ py_str server_port;
           r = ensure_api_server e s project_id
       in trace (snd r) = trace s @ [CreateConfigFile watch server_port, MonitStart full_watch]
        \<and> (monit_start e full_watch \<longrightarrow>
              fst r = Inr server_port
            \<and> api_servers (snd r) = api_servers s @ [(project_id, server_port)])
        \<and> (\<not> monit_start e full_watch \<longrightarrow>
              fst r = Inl (AssertionError (''Monit was unable to start '' @ watch))
            \<and> api_servers (snd r) = api_servers s)))"
proof (intro conjI impI)
  assume "map_of (api_servers s) project_id = Some cached"
  then show "ensure_api_server e s project_id = (Inr cached, s)"
    by (simp add: ensure_api_server_def)
next
  assume absent: "map_of (api_servers s) project_id = None"
  have chosen: "next_port MAX_API_SERVER_PORT (map snd (api_servers s))
        = (if snd ` set (api_servers s) = {} then MAX_API_SERVER_PORT
           else min MAX_API_SERVER_PORT (Min (snd ` set (api_servers s)) - 1))"
    by (simp add: next_port_spec)
  show "let assigned = snd ` set (api_servers s);
           server_port = (if assigned = {} then MAX_API_SERVER_PORT
                          else min MAX_API_SERVER_PORT (Min assigned - 1));
           watch = API_SERVER_PREFIX @ project_id;
           full_watch = watch @ ''-'' @ py_str server_port;
           r = ensure_api_server e s project_id
       in trace (snd r) = trace s @ [CreateConfigFile watch server_port, MonitStart full_watch]
        \<and> (monit_start e full_watch \<longrightarrow>
              fst r = Inr server_port
            \<and> api_servers (snd r) = api_servers s @ [(project_id, server_port)])
        \<and> (\<not> monit_start e full_watch \<longrightarrow>
              fst r = Inl (AssertionError (''Monit was unable to start '' @ watch))
            \<and> api_servers (snd r) = api_servers s)"
    unfolding Let_def ensure_api_server_def chosen [symmetric]
    using absent
    by (simp add: emit_def api_server_full_watch_def api_server_watch_def dict_set_absent)
qed

text \<open>
  With ports 19997 and 19998 assigned a new project gets 19996, a second call returns the
  cached 19996 and changes nothing, and with no port assigned the project gets 19999.
\<close>

theorem ensure_api_server_port_witness:
  "map_of (api_servers s1) ''proj'' = None
   \<and> monit_start env0 ''api-server_proj-19996''
   \<and> fst (ensure_api_server env0 s1 ''proj'') = Inr 19996
   \<and> api_servers (snd (ensure_api_server env0 s1 ''proj''))
        = [(''a'', 19997), (''b'', 19998), (''proj'', 19996)]
   \<and> map_of (api_servers (snd (ensure_api_server env0 s1 ''proj''))) ''proj'' = Some 19996
   \<and> ensure_api_server env0 (snd (ensure_api_server env0 s1 ''proj'')) ''proj''
        = (Inr 19996, snd (ensure_api_server env0 s1 ''proj''))
   \<and> fst (ensure_api_server env0 s0 ''proj'') = Inr 19999"
  using ensure_api_server_port [of s1 "''proj''" 0 env0]
        ensure_api_server_port [of "snd (ensure_api_server env0 s1 ''proj'')" "''proj''" 19996 env0]
        ensure_api_server_port [of s0 "''proj''" 0 env0]
  by (simp add: s1_def s0_def env0_def Let_def MAX_API_SERVER_PORT_def)

text \<open>
  The claim as first stated, without the proviso, fails where Monit does not start the
  watch: the project is not in the map, yet no port is returned and none is cached.
\<close>

theorem ensure_api_server_counterexample:
  "map_of (api_servers s1) ''proj'' = None
   \<and> fst (ensure_api_server (env0\<lparr>monit_start := (\<lambda>w. False)\<rparr>) s1 ''proj'')
        = Inl (AssertionError ''Monit was unable to start api-server_proj'')
   \<and> map_of (api_servers (snd (ensure_api_server (env0\<lparr>monit_start := (\<lambda>w. False)\<rparr>) s1 ''proj''))) ''proj''
        = None"
  by (simp add: ensure_api_server_def s1_def s0_def env0_def Let_def emit_def
        api_server_watch_def API_SERVER_PREFIX_def)

section \<open>Health probe\<close>

lemma emit_emit: "emit b (emit a s) = emit (a @ b) s"
  by (simp add: emit_def)

lemma emit_Nil: "emit [] s = s"
  by (simp add: emit_def)

lemma wait_loop_io_errors:
  assumes "\<forall>j<k. url_open e url (n + j) = IOError"
  shows "wait_loop e url (k + r) n s
       = wait_loop e url r (n + k) (emit (concat (replicate k [UrlOpen url, Sleep BACKOFF_TIME])) s)"
  using assms
proof (induction k arbitrary: n s)
  case 0
  then show ?case by (simp add: emit_Nil)
next
  case (Suc k)
  have first: "url_open e url n = IOError"
    using Suc.prems by (metis add.right_neutral zero_less_Suc)
  have rest: "\<forall>j<k. url_open e url (Suc n + j) = IOError"
    using Suc.prems by (metis Suc_less_eq add_Suc_shift)
  have "wait_loop e url (Suc k + r) n s
      = wait_loop e url (k + r) (Suc n) (emit [UrlOpen url, Sleep BACKOFF_TIME] s)"
    using first by (simp add: opener_open_def http_response_def)
  also have "\<dots> = wait_loop e url r (Suc n + k)
        (emit (concat (replicate k [UrlOpen url, Sleep BACKOFF_TIME]))
           (emit [UrlOpen url, Sleep BACKOFF_TIME] s))"
    by (rule Suc.IH [OF rest])
  finally show ?case
    by (simp add: emit_emit)
qed

lemma digit_chars:
  "digit_char 0 = CHR ''0''" "digit_char 1 = CHR ''1''" "digit_char 2 = CHR ''2''"
  "digit_char 3 = CHR ''3''" "digit_char 4 = CHR ''4''" "digit_char 5 = CHR ''5''"
  "digit_char 6 = CHR ''6''" "digit_char 7 = CHR ''7''" "digit_char 8 = CHR ''8''"
  "digit_char 9 = CHR ''9''" "digit_char (Suc 0) = CHR ''1''"
  by (simp_all add: digit_char_def char_of_def bit_0 bit_Suc)

lemmas py_str_eval = py_str_def str_nat.simps digit_chars

lemma py_str_180: "py_str 180 = ''180''"
  by (simp add: py_str_eval)

lemma retries_180: "nat (START_APP_TIMEOUT div BACKOFF_TIME) = 180"
  by (simp add: START_APP_TIMEOUT_def BACKOFF_TIME_def)

lemma wait_on_app_ready:
  assumes "k < 180" "\<forall>j<k. url_open e (probe_url e prt) j = IOError"
    "url_open e (probe_url e prt) k = Response code"
  shows "wait_on_app e s prt =
        (True, emit (concat (replicate k [UrlOpen (probe_url e prt), Sleep 1])
                     @ UrlOpen (probe_url e prt)
                       # (if code \<noteq> 200
                          then [LogWarning (probe_url e prt @ '' returned '' @ py_str code)]
                          else [])) s)"
proof -
  from assms(1) obtain r where r: "180 = k + Suc r"
    by (metis less_imp_Suc_add add_Suc_right)
  have io: "\<forall>j<k. url_open e (probe_url e prt) (0 + j) = IOError"
    using assms(2) by simp
  have "wait_on_app e s prt = wait_loop e (probe_url e prt) (k + Suc r) 0 s"
    by (simp add: wait_on_app_def retries_180 r)
  also have "\<dots> = wait_loop e (probe_url e prt) (Suc r) (0 + k)
       (emit (concat (replicate k [UrlOpen (probe_url e prt), Sleep BACKOFF_TIME])) s)"
    by (rule wait_loop_io_errors [OF io])
  finally show ?thesis
    using assms(3)
    by (simp add: opener_open_def http_response_def emit_emit BACKOFF_TIME_def HTTP_OK_def)
qed

lemma wait_on_app_timeout:
  assumes "\<forall>j<180. url_open e (probe_url e prt) j = IOError"
  shows "wait_on_app e s prt =
        (False, emit (concat (replicate 180 [UrlOpen (probe_url e prt), Sleep 1])
                      @ [LogError (''Application did not come up on '' @ probe_url e prt
                                     @ '' after 180 seconds'')]) s)"
proof -
  from assms have io: "\<forall>j<180. url_open e (probe_url e prt) (0 + j) = IOError"
    by simp
  have "wait_on_app e s prt = wait_loop e (probe_url e prt) (180 + 0) 0 s"
    by (simp add: wait_on_app_def retries_180)
  also have "\<dots> = wait_loop e (probe_url e prt) 0 (0 + 180)
       (emit (concat (replicate 180 [UrlOpen (probe_url e prt), Sleep BACKOFF_TIME])) s)"
    by (rule wait_loop_io_errors [OF io])
  finally show ?thesis
    by (simp add: emit_emit BACKOFF_TIME_def START_APP_TIMEOUT_def py_str_180)
qed

text \<open>
  Claim C5. For every port, \<open>wait_on_app\<close> polls
  \<open>http://{private_ip}:{port}/_ah/health_check\<close>. Every attempt that ends in an I/O error
  uses up one retry and is followed by a sleep of one second. The first response received,
  whatever its status code (a redirect included: it is not followed, no further request is
  made), ends the probe with \<open>True\<close>. After 180 failed attempts, the 180 seconds' worth of
  retries, the probe logs the error and returns \<open>False\<close>.
\<close>

theorem wait_on_app_probe:
  "probe_url e prt = ''http://'' @ private_ip e @ '':'' @ py_str prt @ ''/_ah/health_check''
 \<and> (k < 180 \<and> (\<forall>j<k. url_open e (probe_url e prt) j = IOError)
        \<and> url_open e (probe_url e prt) k = Response code \<longrightarrow>
      wait_on_app e s prt =
        (True, emit (concat (replicate k [UrlOpen (probe_url e prt), Sleep 1])
                     @ UrlOpen (probe_url e prt)
                       # (if code \<noteq> 200
                          then [LogWarning (probe_url e prt @ '' returned '' @ py_str code)]
                          else [])) s))
 \<and> ((\<forall>j<180. url_open e (probe_url e prt) j = IOError) \<longrightarrow>
      wait_on_app e s prt =
        (False, emit (concat (replicate 180 [UrlOpen (probe_url e prt), Sleep 1])
                      @ [LogError (''Application did not come up on '' @ probe_url e prt
                                     @ '' after 180 seconds'')]) s))"
proof (intro conjI impI)
  show "probe_url e prt = ''http://'' @ private_ip e @ '':'' @ py_str prt @ ''/_ah/health_check''"
    by (simp add: probe_url_def FETCH_PATH_def)
next
  assume "k < 180 \<and> (\<forall>j<k. url_open e (probe_url e prt) j = IOError)
        \<and> url_open e (probe_url e prt) k = Response code"
  then show "wait_on_app e s prt =
        (True, emit (concat (replicate k [UrlOpen (probe_url e prt), Sleep 1])
                     @ UrlOpen (probe_url e prt)
                       # (if code \<noteq> 200
                          then [LogWarning (probe_url e prt @ '' returned '' @ py_str code)]
                          else [])) s)"
    by (intro wait_on_app_ready) simp_all
next
  assume "\<forall>j<180. url_open e (probe_url e prt) j = IOError"
  then show "wait_on_app e s prt =
        (False, emit (concat (replicate 180 [UrlOpen (probe_url e prt), Sleep 1])
                      @ [LogError (''Application did not come up on '' @ probe_url e prt
                                     @ '' after 180 seconds'')]) s)"
    by (rule wait_on_app_timeout)
qed

lemma py_str_8080: "py_str 8080 = ''8080''"
  by (simp add: py_str_eval)

lemma py_str_302: "py_str 302 = ''302''"
  by (simp add: py_str_eval)

lemma env0_fields:
  "private_ip env0 = ''10.0.0.2''"
  "url_open env0 = (\<lambda>u n. if n < 2 then IOError else Response 200)"
  "monit_start env0 = (\<lambda>w. True)"
  "monit_fetch env0 = (\<lambda>w n. Fetched)"
  "config_accessible env0"
  "ensure_source env0 = (\<lambda>rk. None)"
  by (simp_all add: env0_def)

lemma s0_fields:
  "api_servers s0 = []" "trace s0 = []" "pending s0 = []" "zk_nodes s0 = []"
  "running_instances s0 = {}"
  by (simp_all add: s0_def)

text \<open>
  On the example node the third attempt is answered; a redirect answer to the first attempt
  ends the probe at once; an application that never answers is reported not ready.
\<close>

theorem wait_on_app_probe_witness:
  "wait_on_app env0 s0 8080
     = (True, emit [UrlOpen ''http://10.0.0.2:8080/_ah/health_check'', Sleep 1,
                    UrlOpen ''http://10.0.0.2:8080/_ah/health_check'', Sleep 1,
                    UrlOpen ''http://10.0.0.2:8080/_ah/health_check''] s0)
   \<and> wait_on_app (env0\<lparr>url_open := (\<lambda>u n. Response 302)\<rparr>) s0 8080
     = (True, emit [UrlOpen ''http://10.0.0.2:8080/_ah/health_check'',
                    LogWarning ''http://10.0.0.2:8080/_ah/health_check returned 302''] s0)
   \<and> fst (wait_on_app (env0\<lparr>url_open := (\<lambda>u n. IOError)\<rparr>) s0 8080) = False"
proof (intro conjI)
  have u: "probe_url env0 8080 = ''http://10.0.0.2:8080/_ah/health_check''"
    by (simp add: probe_url_def FETCH_PATH_def env0_fields py_str_8080)
  have h: "Suc (Suc 0) < 180 \<and> (\<forall>j<Suc (Suc 0). url_open env0 (probe_url env0 8080) j = IOError)
        \<and> url_open env0 (probe_url env0 8080) (Suc (Suc 0)) = Response 200"
    by (simp add: env0_fields)
  show "wait_on_app env0 s0 8080
     = (True, emit [UrlOpen ''http://10.0.0.2:8080/_ah/health_check'', Sleep 1,
                    UrlOpen ''http://10.0.0.2:8080/_ah/health_check'', Sleep 1,
                    UrlOpen ''http://10.0.0.2:8080/_ah/health_check''] s0)"
    using mp [OF conjunct1 [OF conjunct2 [OF wait_on_app_probe [of env0 8080 "Suc (Suc 0)" 200 s0]]] h]
    by (simp add: u)
next
  let ?e = "env0\<lparr>url_open := (\<lambda>u n. Response 302)\<rparr>"
  have u: "probe_url ?e 8080 = ''http://10.0.0.2:8080/_ah/health_check''"
    by (simp add: probe_url_def FETCH_PATH_def env0_fields py_str_8080)
  show "wait_on_app ?e s0 8080
     = (True, emit [UrlOpen ''http://10.0.0.2:8080/_ah/health_check'',
                    LogWarning ''http://10.0.0.2:8080/_ah/health_check returned 302''] s0)"
    using conjunct1 [OF conjunct2 [OF wait_on_app_probe [of ?e 8080 0 302 s0]]]
    by (simp add: u py_str_302)
next
  let ?e = "env0\<lparr>url_open := (\<lambda>u n. IOError)\<rparr>"
  have io: "\<forall>j<180. url_open ?e (probe_url ?e 8080) j = IOError"
    by simp
  note timeout = mp [OF conjunct2 [OF conjunct2 [OF wait_on_app_probe [of ?e 8080 0 0 s0]]] io]
  show "fst (wait_on_app ?e s0 8080) = False"
    by (simp only: timeout fst_conv)
qed

section \<open>The trace of one start\<close>

lemma wait_loop_split:
  "wait_loop e url r n s = (probe_result e url r n, emit (probe_trace e url r n) s)"
proof (induction r arbitrary: n s)
  case 0
  then show ?case by simp
next
  case (Suc r)
  show ?case
  proof (cases "opener_open e url n")
    case (Response code)
    then show ?thesis by simp
  next
    case IOError
    then show ?thesis
      using Suc.IH [of "Suc n" "emit [UrlOpen url, Sleep BACKOFF_TIME] s"]
      by (simp add: emit_emit)
  qed
qed

lemma probe_trace_events: "list_all is_probe_event (probe_trace e url r n)"
  by (induction r arbitrary: n) (auto split: open_result.splits)

lemma before_append:
  "before A B (xs @ ys) = (before A B xs \<and> ((\<exists>x\<in>set xs. A x) \<or> before A B ys))"
  by (induction xs) auto

lemma before_nth:
  assumes "before A B t" "i < length t" "B (t ! i)"
  shows "\<exists>j\<le>i. A (t ! j)"
  using assms
proof (induction t arbitrary: i)
  case Nil
  then show ?case by simp
next
  case (Cons x xs)
  show ?case
  proof (cases "A x")
    case True
    then show ?thesis by (intro exI [of _ 0]) simp
  next
    case False
    with Cons.prems have nb: "\<not> B x" and rest: "before A B xs" by auto
    from nb Cons.prems obtain k where k: "i = Suc k" by (cases i) auto
    with Cons.prems have "k < length xs" "B (xs ! k)" by auto
    from Cons.IH [OF rest this] obtain j where "j \<le> k" "A (xs ! j)" by blast
    then show ?thesis using k by (intro exI [of _ "Suc j"]) simp
  qed
qed

lemma ensure_api_server_shape:
  assumes "ensure_api_server e s pr = (r, s')"
  shows "pending s' = pending s
       \<and> ((\<exists>ap. r = Inr ap \<and> trace s' = trace s)
          \<or> (\<exists>ap. (r = Inr ap \<or> (\<exists>m. r = Inl (AssertionError m)))
                \<and> trace s' = trace s @ [CreateConfigFile (api_server_watch pr) ap,
                                         MonitStart (api_server_full_watch pr ap)]))"
  using assms
  by (auto simp: ensure_api_server_def Let_def emit_def split: option.splits if_splits)

lemma start_watch_shape:
  assumes "start_watch e s vk pr rk prt = (r, s')"
  shows "((\<exists>m. r = Inl (AssertionError m)) \<and> pending s' = pending s
          \<and> trace s' = trace s @ [CreateConfigFile (instance_watch rk) prt,
                                   MonitStart (instance_full_watch rk prt)])
       \<or> (r = Inr () \<and> pending s' = pending s @ [AddRouting (Instance rk prt)]
          \<and> (\<exists>sz. trace s' = trace s @ [CreateConfigFile (instance_watch rk) prt,
                                   MonitStart (instance_full_watch rk prt),
                                   ZkEnsurePath vk,
                                   SpawnCallback (AddRouting (Instance rk prt)),
                                   SetupLogrotate pr sz]))"
  using assms
  by (auto simp: start_watch_def Let_def emit_def spawn_callback_def split: if_splits)

lemma start_revision_shape:
  assumes "start_revision e s vk pr rk rt mm prt = (r, s')"
  shows "\<exists>A ap sz evs spawned.
            (A = [] \<or> A = api_steps pr ap)
          \<and> trace s' = trace s @ evs
          \<and> pending s' = pending s @ (if spawned then [AddRouting (Instance rk prt)] else [])
          \<and> shape A (start_steps pr ap rk prt vk sz) r spawned evs"
proof (cases "ensure_api_server e s pr")
  case (Pair ra s1)
  note api = ensure_api_server_shape [OF Pair]
  show ?thesis
  proof (cases ra)
    case (Inl err)
    with assms Pair have rs: "r = Inl err" "s' = s1"
      by (simp_all add: start_revision_def)
    from api Inl obtain ap where
      "trace s1 = trace s @ api_steps pr ap" "pending s1 = pending s"
      by (auto simp: api_steps_def)
    then show ?thesis
      using rs
      by (intro exI [of _ "api_steps pr ap"] exI [of _ ap] exI [of _ 0] exI [of _ False])
         (simp add: shape_def)
  next
    case (Inr ap)
    define s2 where "s2 = emit [ApiServerEnsured pr ap, EnsureSource rk] s1"
    have s2: "pending s2 = pending s1" "trace s2 = trace s1 @ [ApiServerEnsured pr ap, EnsureSource rk]"
      by (simp_all add: s2_def emit_def)
    from api Inr obtain A where A: "trace s1 = trace s @ A"
       "A = [] \<or> A = api_steps pr ap"
       "pending s1 = pending s"
      by (auto simp: api_steps_def)
    consider (bad) "r \<noteq> Inr ()" "s' = s2"
      | (watch) "start_watch e s2 vk pr rk prt = (r, s')"
      using assms Pair Inr
      by (auto simp: start_revision_def Let_def s2_def split: if_splits option.splits)
    then show ?thesis
    proof cases
      case bad
      then show ?thesis
        using A s2
        by (intro exI [of _ A] exI [of _ ap] exI [of _ 0]
                  exI [of _ "A @ take 2 (start_steps pr ap rk prt vk 0)"] exI [of _ False])
           (auto simp: shape_def start_steps_def)
    next
      case watch
      from start_watch_shape [OF watch] show ?thesis
      proof (elim disjE conjE exE)
        fix m
        assume "r = Inl (AssertionError m)" "pending s' = pending s2"
          "trace s' = trace s2 @ [CreateConfigFile (instance_watch rk) prt,
                                   MonitStart (instance_full_watch rk prt)]"
        then show ?thesis
          using A s2
          by (intro exI [of _ A] exI [of _ ap] exI [of _ 0]
                  exI [of _ "A @ take 4 (start_steps pr ap rk prt vk 0)"] exI [of _ False])
             (auto simp: shape_def start_steps_def)
      next
        fix sz
        assume "r = Inr ()" "pending s' = pending s2 @ [AddRouting (Instance rk prt)]"
          "trace s' = trace s2 @ [CreateConfigFile (instance_watch rk) prt,
                                   MonitStart (instance_full_watch rk prt),
                                   ZkEnsurePath vk,
                                   SpawnCallback (AddRouting (Instance rk prt)),
                                   SetupLogrotate pr sz]"
        then show ?thesis
          using A s2
          by (intro exI [of _ A] exI [of _ ap] exI [of _ sz]
                  exI [of _ "A @ start_steps pr ap rk prt vk sz"] exI [of _ True])
             (auto simp: shape_def start_steps_def)
      qed
    qed
  qed
qed

lemma start_app_shape:
  assumes "start_app e s vk cfg = (r, s')"
  shows "\<exists>A ap rk prt sz evs spawned.
            (A = [] \<or> A = api_steps (hd (py_split VERSION_PATH_SEPARATOR vk)) ap)
          \<and> trace s' = trace s @ evs
          \<and> pending s' = pending s @ (if spawned then [AddRouting (Instance rk prt)] else [])
          \<and> shape A (start_steps (hd (py_split VERSION_PATH_SEPARATOR vk)) ap rk prt vk sz)
                r spawned evs"
proof -
  consider (early) "s' = s" "r \<noteq> Inr ()"
    | (rev) pr rk rt mm prt where "hd (py_split VERSION_PATH_SEPARATOR vk) = pr"
        "start_revision e s vk pr rk rt mm prt = (r, s')"
    using assms
    by (auto simp: start_app_def split: option.splits if_splits list.splits)
  then show ?thesis
  proof cases
    case early
    then have "([] = [] \<or> [] = api_steps (hd (py_split VERSION_PATH_SEPARATOR vk)) 0)
          \<and> trace s' = trace s @ []
          \<and> pending s' = pending s @ (if False then [AddRouting (Instance [] 0)] else [])
          \<and> shape [] (start_steps (hd (py_split VERSION_PATH_SEPARATOR vk)) 0 [] 0 vk 0) r False []"
      by (simp add: shape_def)
    then show ?thesis by blast
  next
    case rev
    from start_revision_shape [OF rev(2)] show ?thesis
      unfolding rev(1) by blast
  qed
qed

lemma wait_on_app_split:
  "wait_on_app e s prt =
     (probe_result e (probe_url e prt) 180 0, emit (probe_trace e (probe_url e prt) 180 0) s)"
  by (simp add: wait_on_app_def retries_180 wait_loop_split)

lemma register_instance_trace:
  "trace (snd (register_instance e s i)) = trace s @ [RegisterInstance i]"
  by (auto simp: register_instance_def Let_def emit_def split: sum.splits)

lemma add_routing_trace:
  "trace (snd (add_routing e s i)) =
     trace s @ probe_trace e (probe_url e (port i)) 180 0
       @ (if probe_result e (probe_url e (port i)) 180 0
          then [RegisterInstance i]
          else [LogWarning (instance_repr i @ '' did not come up in time'')])"
  by (simp add: add_routing_def wait_on_app_split register_instance_trace) (simp add: emit_def)

lemma start_trace:
  assumes "trace s = []" "pending s = []"
  shows "\<exists>A ap rk prt sz.
           (A = [] \<or> A = api_steps (hd (py_split VERSION_PATH_SEPARATOR vk)) ap)
         \<and> (trace (snd (start e s vk cfg)) = A
            \<or> trace (snd (start e s vk cfg))
                = A @ take 2 (start_steps (hd (py_split VERSION_PATH_SEPARATOR vk)) ap rk prt vk sz)
            \<or> trace (snd (start e s vk cfg))
                = A @ take 4 (start_steps (hd (py_split VERSION_PATH_SEPARATOR vk)) ap rk prt vk sz)
            \<or> trace (snd (start e s vk cfg))
                = A @ start_steps (hd (py_split VERSION_PATH_SEPARATOR vk)) ap rk prt vk sz
                    @ probe_trace e (probe_url e prt) 180 0
                    @ (if probe_result e (probe_url e prt) 180 0
                       then [RegisterInstance (Instance rk prt)]
                       else [LogWarning (instance_repr (Instance rk prt)
                                           @ '' did not come up in time'')]))"
proof (cases "start_app e s vk cfg")
  case (Pair r s1)
  from start_app_shape [OF Pair] obtain A ap rk prt sz evs spawned where
    A: "A = [] \<or> A = api_steps (hd (py_split VERSION_PATH_SEPARATOR vk)) ap"
    and t: "trace s1 = trace s @ evs"
    and p: "pending s1 = pending s @ (if spawned then [AddRouting (Instance rk prt)] else [])"
    and sh: "shape A (start_steps (hd (py_split VERSION_PATH_SEPARATOR vk)) ap rk prt vk sz)
                r spawned evs"
    by blast
  show ?thesis
  proof (cases spawned)
    case False
    then have "snd (start e s vk cfg) = s1\<lparr>pending := []\<rparr>"
      using Pair p assms by (simp add: start_def run_pending_def)
    then have "trace (snd (start e s vk cfg)) = evs"
      using t assms by simp
    then show ?thesis
      using A sh False unfolding shape_def
      by (intro exI [of _ A] exI [of _ ap] exI [of _ rk] exI [of _ prt] exI [of _ sz]) auto
  next
    case True
    then have "snd (start e s vk cfg) = snd (add_routing e (s1\<lparr>pending := []\<rparr>) (Instance rk prt))"
      using Pair p assms by (simp add: start_def run_pending_def run_callback_def)
    then have "trace (snd (start e s vk cfg))
        = evs @ probe_trace e (probe_url e prt) 180 0
            @ (if probe_result e (probe_url e prt) 180 0
               then [RegisterInstance (Instance rk prt)]
               else [LogWarning (instance_repr (Instance rk prt) @ '' did not come up in time'')])"
      using t assms by (simp add: add_routing_trace)
    then show ?thesis
      using A sh True unfolding shape_def
      by (intro exI [of _ A] exI [of _ ap] exI [of _ rk] exI [of _ prt] exI [of _ sz]) auto
  qed
qed

section \<open>Order of the steps of a start, and registration\<close>

lemma before_nth_strict:
  assumes "before A B t" "i < length t" "B (t ! i)" "\<not> A (t ! i)"
  shows "\<exists>j<i. A (t ! j)"
proof -
  from before_nth [OF assms(1-3)] obtain j where j: "j \<le> i" "A (t ! j)" by blast
  with assms(4) have "j \<noteq> i" by auto
  with j show ?thesis by (intro exI [of _ j]) simp
qed

lemma api_watch_not_instance:
  "\<not> startswith (api_server_watch pr) MONIT_INSTANCE_PREFIX"
  "\<not> startswith (api_server_full_watch pr ap) MONIT_INSTANCE_PREFIX"
  by (simp_all add: startswith_def api_server_watch_def api_server_full_watch_def
        API_SERVER_PREFIX_def MONIT_INSTANCE_PREFIX_def)

lemma instance_watch_prefixed:
  "startswith (instance_watch rk) MONIT_INSTANCE_PREFIX"
  "startswith (instance_full_watch rk prt) MONIT_INSTANCE_PREFIX"
  by (simp_all add: startswith_def instance_watch_def instance_full_watch_def)

lemma probe_trace_member:
  assumes "x \<in> set (probe_trace e url r n)"
  shows "is_probe_event x"
  using assms probe_trace_events [of e url r n] by (simp add: list_all_iff)

lemma probe_trace_no_steps:
  assumes "x \<in> set (probe_trace e url r n)"
  shows "x \<noteq> RegisterInstance i" "x \<noteq> MonitStart w" "x \<noteq> CreateConfigFile w p"
    "x \<noteq> SpawnCallback cb" "x \<noteq> ApiServerEnsured pr ap" "x \<noteq> EnsureSource rk"
  using probe_trace_member [OF assms] by auto

lemma probe_event_kinds:
  assumes "is_probe_event x"
  shows "\<not> is_api_ensured x" "\<not> is_instance_config x" "\<not> is_instance_start x" "\<not> is_register x"
  using assms by (cases x; simp)+

lemma start_before:
  assumes "trace s = []" "pending s = []"
  shows "\<exists>rk prt.
      before is_api_ensured is_instance_config (trace (snd (start e s vk cfg)))
    \<and> before (\<lambda>x. x = EnsureSource rk) is_instance_start (trace (snd (start e s vk cfg)))
    \<and> before (\<lambda>x. x = MonitStart (instance_full_watch rk prt)) is_register
         (trace (snd (start e s vk cfg)))
    \<and> (\<forall>x \<in> set (trace (snd (start e s vk cfg))).
          (is_instance_start x \<longrightarrow> x = MonitStart (instance_full_watch rk prt))
        \<and> (is_register x \<longrightarrow> x = RegisterInstance (Instance rk prt)))"
proof -
  from start_trace [OF assms, of vk e cfg] obtain A ap rk prt sz where
    A: "A = [] \<or> A = api_steps (hd (py_split VERSION_PATH_SEPARATOR vk)) ap"
    and t: "trace (snd (start e s vk cfg)) = A
            \<or> trace (snd (start e s vk cfg))
                = A @ take 2 (start_steps (hd (py_split VERSION_PATH_SEPARATOR vk)) ap rk prt vk sz)
            \<or> trace (snd (start e s vk cfg))
                = A @ take 4 (start_steps (hd (py_split VERSION_PATH_SEPARATOR vk)) ap rk prt vk sz)
            \<or> trace (snd (start e s vk cfg))
                = A @ start_steps (hd (py_split VERSION_PATH_SEPARATOR vk)) ap rk prt vk sz
                    @ probe_trace e (probe_url e prt) 180 0
                    @ (if probe_result e (probe_url e prt) 180 0
                       then [RegisterInstance (Instance rk prt)]
                       else [LogWarning (instance_repr (Instance rk prt)
                                           @ '' did not come up in time'')])"
    by blast
  have pt: "\<And>x. x \<in> set (probe_trace e (probe_url e prt) 180 0)
            \<Longrightarrow> \<not> is_instance_start x \<and> \<not> is_register x"
    using probe_trace_member probe_event_kinds by blast
  show ?thesis
    apply (rule exI [of _ rk])
    apply (rule exI [of _ prt])
    using A t pt
    apply (elim disjE)
    apply (simp_all add: before_append api_steps_def start_steps_def api_watch_not_instance
        instance_watch_prefixed)
    done
qed

text \<open>
  Claim C2. In the trace of a single start (\<open>start_app\<close> and the callback it spawns), read
  by position: wherever the supervisor configuration of an instance watch is written, the
  API server was ensured at an earlier position; wherever an instance watch is started, the
  source of the revision that watch belongs to was ensured at an earlier position; and
  wherever \<open>register_instance\<close> is called for an instance, the start of that instance's
  watch is at an earlier position.
\<close>

theorem start_order:
  assumes "trace s = []" and "pending s = []"
    and "t = trace (snd (start e s vk cfg))" and "i < length t"
  shows "(\<forall>w p. t ! i = CreateConfigFile w p \<and> startswith w MONIT_INSTANCE_PREFIX \<longrightarrow>
            (\<exists>j<i. \<exists>pr ap. t ! j = ApiServerEnsured pr ap))
       \<and> (\<forall>w. t ! i = MonitStart w \<and> startswith w MONIT_INSTANCE_PREFIX \<longrightarrow>
            (\<exists>j<i. \<exists>rk p. t ! j = EnsureSource rk \<and> w = instance_full_watch rk p))
       \<and> (\<forall>inst. t ! i = RegisterInstance inst \<longrightarrow>
            (\<exists>j<i. t ! j = MonitStart (instance_full_watch (revision_key inst) (port inst))))"
proof -
  from start_before [OF assms(1,2), of e vk cfg] obtain rk prt where
    b1: "before is_api_ensured is_instance_config t"
    and b2: "before (\<lambda>x. x = EnsureSource rk) is_instance_start t"
    and b3: "before (\<lambda>x. x = MonitStart (instance_full_watch rk prt)) is_register t"
    and only: "\<forall>x \<in> set t.
          (is_instance_start x \<longrightarrow> x = MonitStart (instance_full_watch rk prt))
        \<and> (is_register x \<longrightarrow> x = RegisterInstance (Instance rk prt))"
    unfolding assms(3) by blast
  have mem: "t ! i \<in> set t"
    using assms(4) by simp
  show ?thesis
  proof (intro conjI allI impI)
    fix w p
    assume a: "t ! i = CreateConfigFile w p \<and> startswith w MONIT_INSTANCE_PREFIX"
    then have "is_instance_config (t ! i)" "\<not> is_api_ensured (t ! i)" by simp_all
    from before_nth_strict [OF b1 assms(4) this] obtain j where "j < i" "is_api_ensured (t ! j)"
      by blast
    then show "\<exists>j<i. \<exists>pr ap. t ! j = ApiServerEnsured pr ap"
      by (cases "t ! j") auto
  next
    fix w
    assume a: "t ! i = MonitStart w \<and> startswith w MONIT_INSTANCE_PREFIX"
    then have k: "is_instance_start (t ! i)" "\<not> (t ! i = EnsureSource rk)" by simp_all
    from a only mem k(1) have w: "w = instance_full_watch rk prt" by auto
    from before_nth_strict [OF b2 assms(4) k] obtain j where "j < i" "t ! j = EnsureSource rk"
      by blast
    with w show "\<exists>j<i. \<exists>rk p. t ! j = EnsureSource rk \<and> w = instance_full_watch rk p"
      by blast
  next
    fix inst
    assume a: "t ! i = RegisterInstance inst"
    then have k: "is_register (t ! i)" "\<not> (t ! i = MonitStart (instance_full_watch rk prt))"
      by simp_all
    from a only mem k(1) have inst: "inst = Instance rk prt" by auto
    from before_nth_strict [OF b3 assms(4) k] obtain j where
      "j < i" "t ! j = MonitStart (instance_full_watch rk prt)"
      by blast
    with inst show "\<exists>j<i. t ! j = MonitStart (instance_full_watch (revision_key inst) (port inst))"
      by auto
  qed
qed

lemma env0_more:
  "is_app_name_valid env0 ''proj''"
  "lookup_version env0 ''proj'' ''default'' ''v1''
     = Some \<lparr> runtime = ''python27'', revision_id = 3,
               source_url = ''http://10.0.0.1/proj.tar.gz'', instance_class = None \<rparr>"
  "DASHBOARD_PROJECT_ID env0 = ''appscaledashboard''"
  "APP_LOG_SIZE env0 = 250"
  by (simp_all add: env0_def lookup_version_def)

lemma split_example:
  "py_split VERSION_PATH_SEPARATOR ''proj_default_v1'' = [''proj'', ''default'', ''v1'']"
  by (simp add: VERSION_PATH_SEPARATOR_def)

lemma wait_on_app_env0:
  "wait_on_app env0 s 8080
     = (True, emit [UrlOpen ''http://10.0.0.2:8080/_ah/health_check'', Sleep 1,
                    UrlOpen ''http://10.0.0.2:8080/_ah/health_check'', Sleep 1,
                    UrlOpen ''http://10.0.0.2:8080/_ah/health_check''] s)"
proof -
  have u: "probe_url env0 8080 = ''http://10.0.0.2:8080/_ah/health_check''"
    by (simp add: probe_url_def FETCH_PATH_def env0_fields py_str_8080)
  show ?thesis
    using wait_on_app_ready [of "Suc (Suc 0)" env0 8080 200 s]
    by (simp add: u env0_fields)
qed

lemma py_str_small: "py_str 3 = ''3''" "py_str 19999 = ''19999''"
  by (simp_all add: py_str_eval)

lemma start_example:
  "start env0 s0 ''proj_default_v1'' cfg0 =
     (Inr (),
      \<lparr> api_servers = [(''proj'', 19999)],
        running_instances = {Instance ''proj_default_v1_3'' 8080},
        zk_nodes = [(''proj_default_v1'', [(''10.0.0.2:8080'', ''3'')])],
        pending = [],
        trace = [CreateConfigFile ''api-server_proj'' 19999,
                 MonitStart ''api-server_proj-19999'',
                 ApiServerEnsured ''proj'' 19999,
                 EnsureSource ''proj_default_v1_3'',
                 CreateConfigFile ''instance_proj_default_v1_3'' 8080,
                 MonitStart ''instance_proj_default_v1_3-8080'',
                 ZkEnsurePath ''proj_default_v1'',
                 SpawnCallback (AddRouting (Instance ''proj_default_v1_3'' 8080)),
                 SetupLogrotate ''proj'' 250,
                 UrlOpen ''http://10.0.0.2:8080/_ah/health_check'', Sleep 1,
                 UrlOpen ''http://10.0.0.2:8080/_ah/health_check'', Sleep 1,
                 UrlOpen ''http://10.0.0.2:8080/_ah/health_check'',
                 RegisterInstance (Instance ''proj_default_v1_3'' 8080)] \<rparr>)"
  by (simp add: start_def start_app_def cfg0_def split_example env0_more start_revision_def
      ensure_api_server_def s0_def Let_def MAX_API_SERVER_PORT_def emit_def env0_fields
      api_server_watch_def api_server_full_watch_def API_SERVER_PREFIX_def py_str_small
      PYTHON27_def start_watch_def instance_watch_def instance_full_watch_def
      MONIT_INSTANCE_PREFIX_def py_str_8080 zk_ensure_path_def spawn_callback_def
      run_pending_def run_callback_def add_routing_def wait_on_app_env0 register_instance_def
      zk_create_def zk_set_def version_key_def revision_def instance_entry_def
      VERSION_PATH_SEPARATOR_def)

lemma probe_result_false:
  "(\<not> probe_result e url r n) = (\<forall>j<r. url_open e url (n + j) = IOError)"
proof (induction r arbitrary: n)
  case 0
  then show ?case by simp
next
  case (Suc r)
  show ?case
  proof (cases "url_open e url n")
    case (Response code)
    then have "\<not> (\<forall>j<Suc r. url_open e url (n + j) = IOError)"
      by (metis add.right_neutral open_result.distinct(1) zero_less_Suc)
    with Response show ?thesis
      by (simp add: opener_open_def http_response_def)
  next
    case IOError
    have "(\<forall>j<Suc r. url_open e url (n + j) = IOError)
        = (\<forall>j<r. url_open e url (Suc n + j) = IOError)"
      using IOError by (auto simp: less_Suc_eq_0_disj)
    with IOError Suc.IH [of "Suc n"] show ?thesis
      by (simp add: opener_open_def http_response_def)
  qed
qed

lemma add_routing_not_ready:
  assumes "\<not> fst (wait_on_app e s (port i))"
  shows "add_routing e s i =
     (Inr (), emit (concat (replicate 180 [UrlOpen (probe_url e (port i)), Sleep 1])
           @ [LogError (''Application did not come up on '' @ probe_url e (port i)
                          @ '' after 180 seconds''),
              LogWarning (instance_repr i @ '' did not come up in time'')]) s)"
proof -
  from assms have "\<not> probe_result e (probe_url e (port i)) 180 0"
    by (simp add: wait_on_app_split)
  then have "\<forall>j<180. url_open e (probe_url e (port i)) j = IOError"
    by (simp add: probe_result_false)
  from wait_on_app_timeout [OF this] show ?thesis
    by (simp add: add_routing_def emit_emit)
qed

text \<open>
  Claim C3. In a single start, \<open>register_instance\<close> is called for an instance exactly
  when \<open>add_routing\<close> was spawned for it and the probe of its port reported ready. When the
  probe reports ready, \<open>add_routing\<close> is the probe followed by \<open>register_instance\<close>. When
  the probe's retries run out, \<open>add_routing\<close> adds the probe's requests and sleeps and two
  log lines to the trace and changes nothing else: the instance stays unregistered, and
  nothing is unmonitored, removed or terminated.
\<close>

theorem register_iff_probe_ready:
  assumes "trace s = []" and "pending s = []"
  shows "(RegisterInstance i \<in> set (trace (snd (start e s vk cfg)))
          \<longleftrightarrow> SpawnCallback (AddRouting i) \<in> set (trace (snd (start e s vk cfg)))
              \<and> fst (wait_on_app e s (port i)))
       \<and> (fst (wait_on_app e s' (port i)) \<longrightarrow>
            add_routing e s' i = register_instance e (snd (wait_on_app e s' (port i))) i)
       \<and> (\<not> fst (wait_on_app e s' (port i)) \<longrightarrow>
            add_routing e s' i =
              (Inr (),
               emit (concat (replicate 180 [UrlOpen (probe_url e (port i)), Sleep 1])
                     @ [LogError (''Application did not come up on '' @ probe_url e (port i)
                                    @ '' after 180 seconds''),
                        LogWarning (instance_repr i @ '' did not come up in time'')]) s'))"
proof (intro conjI impI)
  from start_trace [OF assms, of vk e cfg] obtain A ap rk prt sz where
    A: "A = [] \<or> A = api_steps (hd (py_split VERSION_PATH_SEPARATOR vk)) ap"
    and t: "trace (snd (start e s vk cfg)) = A
            \<or> trace (snd (start e s vk cfg))
                = A @ take 2 (start_steps (hd (py_split VERSION_PATH_SEPARATOR vk)) ap rk prt vk sz)
            \<or> trace (snd (start e s vk cfg))
                = A @ take 4 (start_steps (hd (py_split VERSION_PATH_SEPARATOR vk)) ap rk prt vk sz)
            \<or> trace (snd (start e s vk cfg))
                = A @ start_steps (hd (py_split VERSION_PATH_SEPARATOR vk)) ap rk prt vk sz
                    @ probe_trace e (probe_url e prt) 180 0
                    @ (if probe_result e (probe_url e prt) 180 0
                       then [RegisterInstance (Instance rk prt)]
                       else [LogWarning (instance_repr (Instance rk prt)
                                           @ '' did not come up in time'')])"
    by blast
  have pt: "RegisterInstance i \<notin> set (probe_trace e (probe_url e prt) 180 0)"
    "SpawnCallback (AddRouting i) \<notin> set (probe_trace e (probe_url e prt) 180 0)"
    using probe_trace_no_steps(1) [of "RegisterInstance i"]
          probe_trace_no_steps(4) [of "SpawnCallback (AddRouting i)"]
    by blast+
  have r: "fst (wait_on_app e s (port i)) = probe_result e (probe_url e (port i)) 180 0"
    by (simp add: wait_on_app_split)
  show "RegisterInstance i \<in> set (trace (snd (start e s vk cfg)))
          \<longleftrightarrow> SpawnCallback (AddRouting i) \<in> set (trace (snd (start e s vk cfg)))
              \<and> fst (wait_on_app e s (port i))"
    using A t pt unfolding r
    by (elim disjE) (auto simp: api_steps_def start_steps_def)
next
  assume "fst (wait_on_app e s' (port i))"
  then show "add_routing e s' i = register_instance e (snd (wait_on_app e s' (port i))) i"
    by (cases "wait_on_app e s' (port i)") (simp add: add_routing_def)
next
  assume "\<not> fst (wait_on_app e s' (port i))"
  then show "add_routing e s' i =
              (Inr (),
               emit (concat (replicate 180 [UrlOpen (probe_url e (port i)), Sleep 1])
                     @ [LogError (''Application did not come up on '' @ probe_url e (port i)
                                    @ '' after 180 seconds''),
                        LogWarning (instance_repr i @ '' did not come up in time'')]) s')"
    by (rule add_routing_not_ready)
qed

text \<open>
  The start-python scenario on the example node: the configuration of the instance watch is
  written at position 4, the watch is started at position 5, the instance is registered at
  position 14.
\<close>

theorem start_order_witness:
  "trace s0 = [] \<and> pending s0 = []
   \<and> trace (snd (start env0 s0 ''proj_default_v1'' cfg0)) ! 4
        = CreateConfigFile ''instance_proj_default_v1_3'' 8080
   \<and> (\<exists>j<4. \<exists>pr ap. trace (snd (start env0 s0 ''proj_default_v1'' cfg0)) ! j
                        = ApiServerEnsured pr ap)
   \<and> trace (snd (start env0 s0 ''proj_default_v1'' cfg0)) ! 5
        = MonitStart ''instance_proj_default_v1_3-8080''
   \<and> (\<exists>j<5. \<exists>rk p. trace (snd (start env0 s0 ''proj_default_v1'' cfg0)) ! j = EnsureSource rk
                      \<and> ''instance_proj_default_v1_3-8080'' = instance_full_watch rk p)
   \<and> trace (snd (start env0 s0 ''proj_default_v1'' cfg0)) ! 14
        = RegisterInstance (Instance ''proj_default_v1_3'' 8080)
   \<and> (\<exists>j<14. trace (snd (start env0 s0 ''proj_default_v1'' cfg0)) ! j
                = MonitStart (instance_full_watch ''proj_default_v1_3'' 8080))"
proof -
  let ?t = "trace (snd (start env0 s0 ''proj_default_v1'' cfg0))"
  have e: "trace s0 = []" "pending s0 = []"
    by (simp_all add: s0_def)
  have len: "length ?t = 15"
    by (simp add: start_example)
  have e4: "?t ! 4 = CreateConfigFile ''instance_proj_default_v1_3'' 8080"
    and e5: "?t ! 5 = MonitStart ''instance_proj_default_v1_3-8080''"
    and e14: "?t ! 14 = RegisterInstance (Instance ''proj_default_v1_3'' 8080)"
    by (simp_all add: start_example)
  have p: "startswith ''instance_proj_default_v1_3'' MONIT_INSTANCE_PREFIX"
    "startswith ''instance_proj_default_v1_3-8080'' MONIT_INSTANCE_PREFIX"
    by (simp_all add: startswith_def MONIT_INSTANCE_PREFIX_def)
  have o4: "\<exists>j<4. \<exists>pr ap. ?t ! j = ApiServerEnsured pr ap"
    using start_order [OF e refl, of 4 env0 "''proj_default_v1''" cfg0] len e4 p by simp
  have o5: "\<exists>j<5. \<exists>rk p. ?t ! j = EnsureSource rk
                      \<and> ''instance_proj_default_v1_3-8080'' = instance_full_watch rk p"
    using start_order [OF e refl, of 5 env0 "''proj_default_v1''" cfg0] len e5 p by simp
  have o14: "\<exists>j<14. ?t ! j = MonitStart (instance_full_watch ''proj_default_v1_3'' 8080)"
    using start_order [OF e refl, of 14 env0 "''proj_default_v1''" cfg0] len e14 by simp
  show ?thesis
    using e e4 e5 e14 o4 o5 o14 by blast
qed

text \<open>
  On the example node the instance is registered; with an application that never answers it
  is not, and \<open>add_routing\<close> only logs.
\<close>

theorem register_iff_probe_ready_witness:
  "trace s0 = [] \<and> pending s0 = []
   \<and> SpawnCallback (AddRouting (Instance ''proj_default_v1_3'' 8080))
        \<in> set (trace (snd (start env0 s0 ''proj_default_v1'' cfg0)))
   \<and> fst (wait_on_app env0 s0 8080)
   \<and> RegisterInstance (Instance ''proj_default_v1_3'' 8080)
        \<in> set (trace (snd (start env0 s0 ''proj_default_v1'' cfg0)))
   \<and> \<not> fst (wait_on_app (env0\<lparr>url_open := (\<lambda>u n. IOError)\<rparr>) s0 8080)
   \<and> RegisterInstance (Instance ''proj_default_v1_3'' 8080)
        \<notin> set (trace (snd (start (env0\<lparr>url_open := (\<lambda>u n. IOError)\<rparr>) s0 ''proj_default_v1'' cfg0)))
   \<and> add_routing (env0\<lparr>url_open := (\<lambda>u n. IOError)\<rparr>) s0 (Instance ''proj_default_v1_3'' 8080)
       = (Inr (),
          emit (concat (replicate 180 [UrlOpen ''http://10.0.0.2:8080/_ah/health_check'', Sleep 1])
               @ [LogError ''Application did not come up on http://10.0.0.2:8080/_ah/health_check after 180 seconds'',
                  LogWarning ''<Instance: proj_default_v1_3:8080> did not come up in time'']) s0)"
proof -
  let ?i = "Instance ''proj_default_v1_3'' 8080"
  let ?e = "env0\<lparr>url_open := (\<lambda>u n. IOError)\<rparr>"
  have e: "trace s0 = []" "pending s0 = []"
    by (simp_all add: s0_def)
  have sp: "SpawnCallback (AddRouting ?i) \<in> set (trace (snd (start env0 s0 ''proj_default_v1'' cfg0)))"
    by (simp add: start_example)
  have ready: "fst (wait_on_app env0 s0 8080)"
    by (simp add: wait_on_app_env0)
  have reg: "RegisterInstance ?i \<in> set (trace (snd (start env0 s0 ''proj_default_v1'' cfg0)))"
    using conjunct1 [OF register_iff_probe_ready [OF e, of ?i env0 "''proj_default_v1''" cfg0 s0]]
          sp ready
    by simp
  have io: "\<forall>j<180. url_open ?e (probe_url ?e 8080) j = IOError"
    by simp
  have nr: "\<not> fst (wait_on_app ?e s0 8080)"
    by (simp only: wait_on_app_timeout [OF io] fst_conv) simp
  have nreg: "RegisterInstance ?i \<notin> set (trace (snd (start ?e s0 ''proj_default_v1'' cfg0)))"
    using conjunct1 [OF register_iff_probe_ready [OF e, of ?i ?e "''proj_default_v1''" cfg0 s0]] nr
    by simp
  have u: "probe_url ?e 8080 = ''http://10.0.0.2:8080/_ah/health_check''"
    by (simp add: probe_url_def FETCH_PATH_def env0_fields py_str_8080)
  have rep: "instance_repr ?i = ''<Instance: proj_default_v1_3:8080>''"
    by (simp add: instance_repr_def py_str_8080)
  have ar: "add_routing ?e s0 ?i
       = (Inr (),
          emit (concat (replicate 180 [UrlOpen ''http://10.0.0.2:8080/_ah/health_check'', Sleep 1])
               @ [LogError ''Application did not come up on http://10.0.0.2:8080/_ah/health_check after 180 seconds'',
                  LogWarning ''<Instance: proj_default_v1_3:8080> did not come up in time'']) s0)"
    using conjunct2 [OF conjunct2 [OF register_iff_probe_ready [OF e, of ?i ?e "''x''" cfg0 s0]]] nr
    by (simp only: Instance.sel u rep) simp
  show ?thesis
    using e sp ready reg nr nreg ar by blast
qed

section \<open>Reconciling the registry\<close>





























lemma py_int_examples: "py_int ''8080'' = Inr 8080" "py_int ''8081'' = Inr 8081"
  by (simp_all add: py_int_digits is_digit_def nat_of_digits_def digit_val_def)








section \<open>Bad configurations\<close>

lemma ensure_api_server_errors:
  "fst (ensure_api_server e s pr) \<noteq> Inl (BadConfigurationException msg)"
  by (simp add: ensure_api_server_def Let_def split: option.splits)

lemma start_watch_errors:
  "fst (start_watch e s vk pr rk prt) \<noteq> Inl (BadConfigurationException msg)"
  by (simp add: start_watch_def Let_def)

lemma runtimes_distinct:
  "JAVA \<noteq> PYTHON27" "JAVA \<noteq> GO" "JAVA \<noteq> PHP"
  by (simp_all add: JAVA_def PYTHON27_def GO_def PHP_def)

lemma start_revision_bad:
  "(\<exists>msg. fst (start_revision e s vk pr rk rt mm prt) = Inl (BadConfigurationException msg))
     = ((\<exists>ap. fst (ensure_api_server e s pr) = Inr ap)
        \<and> ensure_source e rk = None
        \<and> (rt \<notin> {PYTHON27, GO, PHP, JAVA} \<or> (rt = JAVA \<and> mm - 250 \<le> 0)))"
proof (cases "ensure_api_server e s pr")
  case (Pair ra s1)
  show ?thesis
  proof (cases ra)
    case (Inl err)
    with Pair ensure_api_server_errors [of e s pr] show ?thesis
      by (simp add: start_revision_def)
  next
    case (Inr ap)
    with Pair show ?thesis
      using start_watch_errors [of e _ vk pr rk prt] runtimes_distinct
      by (auto simp: start_revision_def Let_def split: option.splits)
  qed
qed

lemma ensure_api_server_error_kind:
  "fst (ensure_api_server e s pr) = Inl err \<Longrightarrow> \<exists>m. err = AssertionError m"
  by (auto simp: ensure_api_server_def Let_def split: option.splits if_splits)

lemma start_watch_error_kind:
  "fst (start_watch e s vk pr rk prt) = Inl err \<Longrightarrow> \<exists>m. err = AssertionError m"
  by (auto simp: start_watch_def Let_def split: if_splits)

lemma start_revision_error_kind:
  assumes "fst (start_revision e s vk pr rk rt mm prt) = Inl err"
  shows "(\<exists>m. err = BadConfigurationException m) \<or> (\<exists>m. err = AssertionError m)
       \<or> (\<exists>m. err = ExternalError m)"
proof (cases "ensure_api_server e s pr")
  case (Pair ra s1)
  show ?thesis
  proof (cases ra)
    case (Inl err')
    with Pair assms ensure_api_server_error_kind [of e s pr err'] show ?thesis
      by (simp add: start_revision_def)
  next
    case (Inr ap)
    with Pair assms show ?thesis
      using start_watch_error_kind [of e _ vk pr rk prt err]
      by (auto simp: start_revision_def Let_def split: if_splits option.splits)
  qed
qed

lemma start_app_error_kind:
  assumes "fst (start_app e s vk cfg) = Inl err"
  shows "(\<exists>m. err = BadConfigurationException m) \<or> (\<exists>m. err = AssertionError m)
       \<or> (\<exists>m. err = ExternalError m) \<or> err = ConfigInaccessible \<or> err = ValueError"
proof -
  consider (early) "err = ValueError \<or> err = ConfigInaccessible
                    \<or> (\<exists>m. err = BadConfigurationException m)"
    | (rev) pr rk rt mm prt where "fst (start_revision e s vk pr rk rt mm prt) = Inl err"
    using assms
    by (auto simp: start_app_def split: option.splits if_splits list.splits)
  then show ?thesis
  proof cases
    case early
    then show ?thesis by blast
  next
    case rev
    from start_revision_error_kind [OF rev] show ?thesis by blast
  qed
qed

text \<open>
  Claim C6, as amended. \<open>start_app\<close> raises \<open>BadConfigurationException\<close> exactly when
  \<open>app_port\<close> is missing from the body, or \<open>login_server\<close> is missing or empty, or the
  version key has three components and the project id fails \<open>is_app_name_valid\<close>, or the
  projects model has no version record for it, or the runtime parameters have been read,
  the API server and the source have been ensured, and the runtime is not one of python27,
  go, php, java, or is java with \<open>maxMemory - 250 <= 0\<close>.
\<close>

theorem start_app_bad_configuration:
  "(\<exists>msg. fst (start_app e s vk cfg) = Inl (BadConfigurationException msg))
      = (app_port cfg = None \<or> login_server cfg = None \<or> login_server cfg = Some []
         \<or> (\<exists>pr sv v. py_split VERSION_PATH_SEPARATOR vk = [pr, sv, v]
               \<and> (\<not> is_app_name_valid e pr
                  \<or> lookup_version e pr sv v = None
                  \<or> (\<exists>vd. lookup_version e pr sv v = Some vd
                        \<and> config_accessible e
                        \<and> (\<exists>ap. fst (ensure_api_server e s pr) = Inr ap)
                        \<and> ensure_source e
                              (py_join [VERSION_PATH_SEPARATOR]
                                 [pr, sv, v, py_str (revision_id vd)]) = None
                        \<and> (runtime vd \<notin> {PYTHON27, GO, PHP, JAVA}
                           \<or> (runtime vd = JAVA \<and> max_memory_of e vd - 250 \<le> 0))))))"
proof (cases "app_port cfg")
    case None
    then show ?thesis by (simp add: start_app_def)
  next
    case (Some prt)
    note port = this
    show ?thesis
    proof (cases "login_server cfg")
      case None
      with port show ?thesis by (simp add: start_app_def)
    next
      case (Some login)
      note login = this
      show ?thesis
      proof (cases "login = []")
        case True
        with port login show ?thesis by (simp add: start_app_def)
      next
        case False
        note nonempty = this
        show ?thesis
        proof (cases "\<exists>pr sv v. py_split VERSION_PATH_SEPARATOR vk = [pr, sv, v]")
          case False
          then have "fst (start_app e s vk cfg) = Inl ValueError"
            using port login nonempty
            by (auto simp: start_app_def split: list.splits)
          with False port login nonempty show ?thesis by simp
        next
          case True
          then obtain pr sv v where sp: "py_split VERSION_PATH_SEPARATOR vk = [pr, sv, v]"
            by blast
          show ?thesis
          proof (cases "is_app_name_valid e pr")
            case False
            with port login nonempty sp show ?thesis by (simp add: start_app_def)
          next
            case True
            note valid = this
            show ?thesis
            proof (cases "lookup_version e pr sv v")
              case None
              with port login nonempty sp valid show ?thesis by (simp add: start_app_def)
            next
              case (Some vd)
              note found = this
              show ?thesis
              proof (cases "config_accessible e")
                case False
                with port login nonempty sp valid found show ?thesis
                  by (simp add: start_app_def)
              next
                case True
                then have "fst (start_app e s vk cfg)
                    = fst (start_revision e s vk pr
                        (py_join [VERSION_PATH_SEPARATOR] [pr, sv, v, py_str (revision_id vd)])
                        (runtime vd) (max_memory_of e vd) prt)"
                  using port login nonempty sp valid found by (simp add: start_app_def)
                then show ?thesis
                  using port login nonempty sp valid found True
                  by (simp add: start_revision_bad)
              qed
            qed
          qed
        qed
      qed
    qed
  qed

text \<open>
  The POST handler turns a \<open>BadConfigurationException\<close> of \<open>start_app\<close> into an
  \<open>HTTPError\<close> that carries \<open>HTTPCodes.BAD_REQUEST\<close> and the message, and raises no such
  error otherwise.
\<close>

lemma post_bad_request:
  "(fst (post e s vk (Some cfg)) = Inl (HTTPError BAD_REQUEST m))
      = (fst (start_app e s vk cfg) = Inl (BadConfigurationException m))"
proof -
  have no_http: "fst (start_app e s vk cfg) \<noteq> Inl (HTTPError BAD_REQUEST m)"
    using start_app_error_kind [of e s vk cfg "HTTPError BAD_REQUEST m"] by auto
  show ?thesis
  proof (cases "start_app e s vk cfg")
    case (Pair r s1)
    show ?thesis
    proof (cases r)
      case (Inl err)
      with Pair no_http show ?thesis
        by (cases err) (simp_all add: post_def bad_request_def)
    next
      case (Inr u)
      with Pair show ?thesis
        by (simp add: post_def bad_request_def)
    qed
  qed
qed

lemma env_ruby_fields:
  "is_app_name_valid env_ruby ''proj''"
  "lookup_version env_ruby ''proj'' ''default'' ''v1''
     = Some \<lparr> runtime = ''ruby'', revision_id = 3,
               source_url = ''http://10.0.0.1/proj.tar.gz'', instance_class = None \<rparr>"
  "monit_start env_ruby = (\<lambda>w. False)"
  "config_accessible env_ruby"
  by (simp_all add: env_ruby_def env0_def lookup_version_def)

lemma env_java_fields:
  "is_app_name_valid env_java ''proj''"
  "lookup_version env_java ''proj'' ''default'' ''v1''
     = Some \<lparr> runtime = ''java'', revision_id = 3,
               source_url = ''http://10.0.0.1/proj.tar.gz'', instance_class = Some ''F1'' \<rparr>"
  "monit_start env_java = (\<lambda>w. True)"
  "INSTANCE_CLASSES env_java ''F1'' = Some 200"
  "config_accessible env_java"
  "ensure_source env_java = (\<lambda>rk. None)"
  by (simp_all add: env_java_def env0_def lookup_version_def)

lemma cfg0_fields: "app_port cfg0 = Some 8080" "login_server cfg0 = Some ''10.0.0.1''"
  by (simp_all add: cfg0_def)

text \<open>
  The claim as first stated fails in three ways. The runtime check comes after
  \<open>ensure_api_server\<close>: with an unknown runtime and a Monit that does not start the API
  server the request ends in \<open>AssertionError\<close>, not in a bad configuration. A version key
  that is not three components, for which the projects model can hold no record, ends in
  \<open>ValueError\<close> when it is unpacked. And a body whose \<open>login_server\<close> is present but empty
  is a bad configuration, although nothing is missing from it and the version is on record
  with a known runtime.
\<close>

theorem start_app_bad_configuration_counterexample:
  "lookup_version env_ruby ''proj'' ''default'' ''v1''
     = Some \<lparr> runtime = ''ruby'', revision_id = 3,
               source_url = ''http://10.0.0.1/proj.tar.gz'', instance_class = None \<rparr>
   \<and> ''ruby'' \<notin> {PYTHON27, GO, PHP, JAVA}
   \<and> fst (start_app env_ruby s0 ''proj_default_v1'' cfg0)
       = Inl (AssertionError ''Monit was unable to start api-server_proj'')
   \<and> fst (start_app env0 s0 ''proj'' cfg0) = Inl ValueError
   \<and> app_port (cfg0\<lparr>login_server := Some []\<rparr>) = Some 8080
   \<and> login_server (cfg0\<lparr>login_server := Some []\<rparr>) = Some []
   \<and> is_app_name_valid env0 ''proj''
   \<and> lookup_version env0 ''proj'' ''default'' ''v1''
     = Some \<lparr> runtime = ''python27'', revision_id = 3,
               source_url = ''http://10.0.0.1/proj.tar.gz'', instance_class = None \<rparr>
   \<and> ''python27'' \<in> {PYTHON27, GO, PHP, JAVA}
   \<and> fst (start_app env0 s0 ''proj_default_v1'' (cfg0\<lparr>login_server := Some []\<rparr>))
       = Inl (BadConfigurationException ''login_server is required'')"
proof -
  have a: "fst (start_app env_ruby s0 ''proj_default_v1'' cfg0)
       = Inl (AssertionError ''Monit was unable to start api-server_proj'')"
    by (simp add: start_app_def cfg0_fields split_example env_ruby_fields start_revision_def
        ensure_api_server_def s0_fields Let_def api_server_watch_def API_SERVER_PREFIX_def
        del: py_split.simps)
  have b: "fst (start_app env0 s0 ''proj'' cfg0) = Inl ValueError"
    by (simp add: start_app_def cfg0_fields VERSION_PATH_SEPARATOR_def)
  have c: "fst (start_app env0 s0 ''proj_default_v1'' (cfg0\<lparr>login_server := Some []\<rparr>))
       = Inl (BadConfigurationException ''login_server is required'')"
    by (simp add: start_app_def cfg0_fields)
  show ?thesis
    using a b c
    by (simp add: env_ruby_fields env0_more cfg0_fields PYTHON27_def GO_def PHP_def JAVA_def)
qed

text \<open>
  A body without \<open>app_port\<close> is a bad configuration; the start-python scenario is not; a
  Java version left with 200 MB is.
\<close>

theorem start_app_bad_configuration_witness:
  "app_port (cfg0\<lparr>app_port := None\<rparr>) = None
   \<and> (\<exists>msg. fst (start_app env0 s0 ''proj_default_v1'' (cfg0\<lparr>app_port := None\<rparr>))
              = Inl (BadConfigurationException msg))
   \<and> \<not> (\<exists>msg. fst (start_app env0 s0 ''proj_default_v1'' cfg0)
              = Inl (BadConfigurationException msg))
   \<and> max_memory_of env_java
         \<lparr> runtime = ''java'', revision_id = 3,
           source_url = ''http://10.0.0.1/proj.tar.gz'', instance_class = Some ''F1'' \<rparr> = 200
   \<and> (\<exists>msg. fst (start_app env_java s0 ''proj_default_v1'' cfg0)
              = Inl (BadConfigurationException msg))
   \<and> fst (start_app env_java s0 ''proj_default_v1'' cfg0)
       = Inl (BadConfigurationException ''Memory for Java applications must be greater than 250MB'')"
proof -
  have w1: "\<exists>msg. fst (start_app env0 s0 ''proj_default_v1'' (cfg0\<lparr>app_port := None\<rparr>))
              = Inl (BadConfigurationException msg)"
    using start_app_bad_configuration [of env0 s0 "''proj_default_v1''" "cfg0\<lparr>app_port := None\<rparr>"]
    by simp
  have w2: "\<not> (\<exists>msg. fst (start_app env0 s0 ''proj_default_v1'' cfg0)
              = Inl (BadConfigurationException msg))"
    using start_app_bad_configuration [of env0 s0 "''proj_default_v1''" cfg0]
    by (simp add: cfg0_fields split_example env0_more PYTHON27_def GO_def PHP_def JAVA_def
        del: py_split.simps)
  have mm: "max_memory_of env_java
         \<lparr> runtime = ''java'', revision_id = 3,
           source_url = ''http://10.0.0.1/proj.tar.gz'', instance_class = Some ''F1'' \<rparr> = 200"
    by (simp add: max_memory_of_def env_java_fields)
  have w3: "\<exists>msg. fst (start_app env_java s0 ''proj_default_v1'' cfg0)
              = Inl (BadConfigurationException msg)"
    using start_app_bad_configuration [of env_java s0 "''proj_default_v1''" cfg0]
    by (simp add: cfg0_fields split_example env_java_fields mm ensure_api_server_def s0_fields
        Let_def JAVA_def del: py_split.simps)
  have j: "fst (start_app env_java s0 ''proj_default_v1'' cfg0)
       = Inl (BadConfigurationException ''Memory for Java applications must be greater than 250MB'')"
    by (simp add: start_app_def cfg0_fields split_example env_java_fields start_revision_def
        ensure_api_server_def s0_fields Let_def max_memory_of_def
        PYTHON27_def GO_def PHP_def JAVA_def del: py_split.simps)
  show ?thesis
    using w1 w2 mm w3 j by simp
qed

section \<open>Stopping: what \<open>unmonitor\<close> leaves behind\<close>

text \<open>
  \<open>unmonitor\<close> sends at most six requests for the watch and does nothing else; its outcome
  does not depend on the state. An \<open>HTTPError\<close> it raises is one the fetch raised, with a
  code other than 404.
\<close>

lemma unmonitor_split:
  "\<exists>r k. (r = Inr () \<or> (\<exists>m. r = Inl (ProcessNotFound m))
          \<or> (\<exists>c m j. r = Inl (HTTPError c m) \<and> c \<noteq> 404 \<and> monit_fetch e w j = FetchError c m))
        \<and> (\<forall>s. unmonitor e w retries n s = (r, emit (replicate (Suc k) (MonitUnmonitor w)) s))"
proof (induction "nat retries" arbitrary: retries n rule: less_induct)
  case less
  show ?case
  proof (cases "monit_fetch e w n")
    case Fetched
    then have "\<forall>s. unmonitor e w retries n s = (Inr (), emit (replicate (Suc 0) (MonitUnmonitor w)) s)"
      by (subst unmonitor.simps) simp
    then show ?thesis by blast
  next
    case (FetchError code message)
    show ?thesis
    proof (cases "code = 404")
      case True
      with FetchError have "\<forall>s. unmonitor e w retries n s
          = (Inl (ProcessNotFound (w @ '' not listed by Monit'')),
             emit (replicate (Suc 0) (MonitUnmonitor w)) s)"
        by (subst unmonitor.simps) simp
      then show ?thesis by blast
    next
      case False
      note not404 = this
      show ?thesis
      proof (cases "code = 503 \<and> \<not> retries - 1 < 0")
        case False
        with FetchError not404 have "\<forall>s. unmonitor e w retries n s
            = (Inl (HTTPError code message), emit (replicate (Suc 0) (MonitUnmonitor w)) s)"
          by (subst unmonitor.simps) auto
        with FetchError not404 show ?thesis by blast
      next
        case True
        then have "nat (retries - 1) < nat retries" by auto
        from less [OF this, of "Suc n"] obtain r k where
          r: "r = Inr () \<or> (\<exists>m. r = Inl (ProcessNotFound m))
              \<or> (\<exists>c m j. r = Inl (HTTPError c m) \<and> c \<noteq> 404 \<and> monit_fetch e w j = FetchError c m)"
          and ih: "\<forall>s. unmonitor e w (retries - 1) (Suc n) s
                      = (r, emit (replicate (Suc k) (MonitUnmonitor w)) s)"
          by blast
        have "\<forall>s. unmonitor e w retries n s
                 = (r, emit (replicate (Suc (Suc k)) (MonitUnmonitor w)) s)"
        proof
          fix s
          have "unmonitor e w retries n s
              = unmonitor e w (retries - 1) (Suc n) (emit [MonitUnmonitor w] s)"
            using FetchError not404 True by (subst unmonitor.simps) simp
          then show "unmonitor e w retries n s
                 = (r, emit (replicate (Suc (Suc k)) (MonitUnmonitor w)) s)"
            using ih by (simp add: emit_emit)
        qed
        with r show ?thesis by blast
      qed
    qed
  qed
qed

text \<open>The three ways \<open>unmonitor_and_terminate\<close> can end, each the same in every state.\<close>

lemma unmonitor_and_terminate_cases:
  obtains (not_found) k where
      "\<And>s. unmonitor_and_terminate e s w
               = (Inr (), emit (replicate (Suc k) (MonitUnmonitor w)) s)"
      "\<And>s. \<exists>m. fst (unmonitor e w 5 0 s) = Inl (ProcessNotFound m)"
    | (failed) k c m j where
      "\<And>s. unmonitor_and_terminate e s w
               = (Inl (HTTPError c m), emit (replicate (Suc k) (MonitUnmonitor w)) s)"
      "\<And>s. fst (unmonitor e w 5 0 s) = Inl (HTTPError c m)"
      "c \<noteq> 404" "monit_fetch e w j = FetchError c m"
    | (stopped) k where
      "\<And>s. unmonitor_and_terminate e s w
               = (Inr (), spawn_callback (StopInstance w)
                   (emit (replicate (Suc k) (MonitUnmonitor w) @ [RemoveConfiguration w]) s))"
      "\<And>s. fst (unmonitor e w 5 0 s) = Inr ()"
proof -
  from unmonitor_split [of e w 5 0] obtain r k where
    r: "r = Inr () \<or> (\<exists>m. r = Inl (ProcessNotFound m))
        \<or> (\<exists>c m j. r = Inl (HTTPError c m) \<and> c \<noteq> 404 \<and> monit_fetch e w j = FetchError c m)"
    and u: "\<forall>s. unmonitor e w 5 0 s = (r, emit (replicate (Suc k) (MonitUnmonitor w)) s)"
    by blast
  from r show thesis
  proof (elim disjE exE conjE)
    assume r: "r = Inr ()"
    from r u have a: "\<And>s. unmonitor_and_terminate e s w
               = (Inr (), spawn_callback (StopInstance w)
                   (emit (replicate (Suc k) (MonitUnmonitor w) @ [RemoveConfiguration w]) s))"
      by (simp add: unmonitor_and_terminate_def emit_emit)
    from r u have b: "\<And>s. fst (unmonitor e w 5 0 s) = Inr ()"
      by simp
    show thesis by (rule stopped [OF a b])
  next
    fix m assume r: "r = Inl (ProcessNotFound m)"
    from r u have a: "\<And>s. unmonitor_and_terminate e s w
               = (Inr (), emit (replicate (Suc k) (MonitUnmonitor w)) s)"
      by (simp add: unmonitor_and_terminate_def)
    from r u have b: "\<And>s. \<exists>m. fst (unmonitor e w 5 0 s) = Inl (ProcessNotFound m)"
      by simp
    show thesis by (rule not_found [OF a b])
  next
    fix c m j
    assume r: "r = Inl (HTTPError c m)" and c: "c \<noteq> 404"
      and f: "monit_fetch e w j = FetchError c m"
    from r u have a: "\<And>s. unmonitor_and_terminate e s w
               = (Inl (HTTPError c m), emit (replicate (Suc k) (MonitUnmonitor w)) s)"
      by (simp add: unmonitor_and_terminate_def)
    from r u have b: "\<And>s. fst (unmonitor e w 5 0 s) = Inl (HTTPError c m)"
      by simp
    show thesis by (rule failed [OF a b c f])
  qed
qed



lemma unmonitor_and_terminate_fst:
  "fst (unmonitor_and_terminate e s w) = fst (unmonitor_and_terminate e s' w)"
  by (cases rule: unmonitor_and_terminate_cases [of e w]) simp_all

lemma unmonitor_and_terminate_api_servers:
  "api_servers (snd (unmonitor_and_terminate e s w)) = api_servers s"
  by (cases rule: unmonitor_and_terminate_cases [of e w])
     (simp_all add: emit_def spawn_callback_def)

lemma unmonitor_and_terminate_trace:
  "length (trace s) < length (trace (snd (unmonitor_and_terminate e s w)))"
  by (cases rule: unmonitor_and_terminate_cases [of e w])
     (simp_all add: emit_def spawn_callback_def)

lemma stop_api_server_fst:
  assumes "api_servers s = api_servers s'"
  shows "fst (stop_api_server e s pid) = fst (stop_api_server e s' pid)"
proof (cases "map_of (api_servers s) pid")
  case None
  with assms show ?thesis by (simp add: stop_api_server_def)
next
  case (Some prt)
  let ?w = "API_SERVER_PREFIX @ pid @ ''-'' @ py_str prt"
  from unmonitor_and_terminate_fst [of e s ?w s'] Some assms show ?thesis
    by (cases "unmonitor_and_terminate e s ?w"; cases "unmonitor_and_terminate e s' ?w")
       (auto simp: stop_api_server_def split: sum.splits)
qed


lemma stop_api_server_trace:
  "length (trace s) \<le> length (trace (snd (stop_api_server e s pid)))"
proof (cases "map_of (api_servers s) pid")
  case None
  then show ?thesis by (simp add: stop_api_server_def)
next
  case (Some prt)
  let ?w = "API_SERVER_PREFIX @ pid @ ''-'' @ py_str prt"
  from Some unmonitor_and_terminate_trace [of s e ?w] show ?thesis
    by (cases "unmonitor_and_terminate e s ?w") (auto simp: stop_api_server_def split: sum.splits)
qed


lemma unmonitor_and_terminate_fields:
  "api_servers (snd (unmonitor_and_terminate e s w)) = api_servers s"
  "zk_nodes (snd (unmonitor_and_terminate e s w)) = zk_nodes s"
  "running_instances (snd (unmonitor_and_terminate e s w)) = running_instances s"
  by (cases rule: unmonitor_and_terminate_cases [of e w]; simp add: emit_def spawn_callback_def)+


lemma reload_and_clean_trace:
  "length (trace s) < length (trace (snd (reload_and_clean e s)))"
  by (auto simp: reload_and_clean_def emit_def split: option.splits)

lemma reload_and_clean_fst:
  "fst (reload_and_clean e s) = fst (reload_and_clean e s')"
  by (auto simp: reload_and_clean_def split: option.splits)

lemma stop_api_server_if_last_fst:
  "api_servers s = api_servers s'
    \<Longrightarrow> fst (stop_api_server_if_last e s pid rem) = fst (stop_api_server_if_last e s' pid rem)"
  using stop_api_server_fst [of s s' e pid] by (simp add: stop_api_server_if_last_def)


lemma stop_api_server_if_last_trace:
  "length (trace s) \<le> length (trace (snd (stop_api_server_if_last e s pid rem)))"
  using stop_api_server_trace [of s e pid] by (simp add: stop_api_server_if_last_def)








section \<open>A watch that Monit does not know\<close>


lemma unmonitor_404:
  assumes "monit_fetch e w 0 = FetchError 404 m"
  shows "unmonitor e w 5 0 s
           = (Inl (ProcessNotFound (w @ '' not listed by Monit'')), emit [MonitUnmonitor w] s)"
  using assms by (subst unmonitor.simps) simp

lemma unmonitor_and_terminate_404:
  assumes "monit_fetch e w 0 = FetchError 404 m"
  shows "unmonitor_and_terminate e s w = (Inr (), emit [MonitUnmonitor w] s)"
  by (simp add: unmonitor_and_terminate_def unmonitor_404 [OF assms])








section \<open>Stopping on the example nodes\<close>


lemma env404_fields:
  "monit_fetch env404 = (\<lambda>w n. FetchError 404 ''Not Found'')"
  "monit_entries env404 = [''instance_proj_default_v1_3-8080'', ''api-server_proj-19999'']"
  "monit_reload env404 = None" "clean_old_sources env404 = None"
  "is_app_name_valid env404 ''proj''"
  "projects_manager env404 ''proj'' \<noteq> None"
  by (simp_all add: env404_def env0_def)


lemma env_foo_fields:
  "monit_fetch env_foo = (\<lambda>w n. Fetched)"
  "monit_entries env_foo
     = [''instance_foo_default_v1_1-8080'', ''instance_foobar_default_v1_1-8081'',
        ''api-server_foo-19999'', ''api-server_foobar-19998'']"
  "monit_reload env_foo = None" "clean_old_sources env_foo = None"
  "is_app_name_valid env_foo ''foo''"
  "projects_manager env_foo ''foo'' = None"
  "os_remove_ok env_foo = (\<lambda>p. True)"
  "private_ip env_foo = ''10.0.0.2''"
  by (simp_all add: env_foo_def env0_def)

lemma env_two_fields:
  "monit_fetch env_two = (\<lambda>w n. Fetched)"
  "monit_entries env_two
     = [''instance_proj_default_v1_3-10240'', ''instance_proj_default_v1_3-10241'',
        ''api-server_proj-19999'']"
  "monit_reload env_two = None" "clean_old_sources env_two = None"
  "is_app_name_valid env_two ''proj''"
  "private_ip env_two = ''10.0.0.2''"
  by (simp_all add: env_two_def env0_def)

lemma s_proj_fields:
  "api_servers s_proj = [(''proj'', 19999)]" "trace s_proj = []" "pending s_proj = []"
  "zk_nodes s_proj = []" "running_instances s_proj = {}"
  by (simp_all add: s_proj_def s0_def)

lemma s_foo_fields:
  "api_servers s_foo = [(''foo'', 19999), (''foobar'', 19998)]" "trace s_foo = []"
  "pending s_foo = []" "zk_nodes s_foo = []" "running_instances s_foo = {}"
  by (simp_all add: s_foo_def s0_def)

lemma py_str_stop: "py_str 9090 = ''9090''" "py_str 1024 = ''1024''" "py_str 19998 = ''19998''"
  by (simp_all add: py_str_eval)

lemma project_examples:
  "hd (py_split VERSION_PATH_SEPARATOR ''proj_default_v1'') = ''proj''"
  "hd (py_split VERSION_PATH_SEPARATOR ''_default_v1'') = []"
  "hd (py_split VERSION_PATH_SEPARATOR ''foo_default_v1'') = ''foo''"
  "hd (py_split VERSION_PATH_SEPARATOR ''foobar_default_v1_1'') = ''foobar''"
  by (simp_all add: VERSION_PATH_SEPARATOR_def)

lemma match_examples:
  "instance_key_re_match ''proj_default_v1'' 8080 ''instance_proj_default_v1_3-8080''"
  "\<not> instance_key_re_match ''proj_default_v1'' 8080 ''api-server_proj-19999''"
  "\<not> instance_key_re_match ''proj_default_v1'' 9090 ''instance_proj_default_v1_3-8080''"
  "\<not> instance_key_re_match ''proj_default_v1'' 9090 ''api-server_proj-19999''"
  "\<not> instance_key_re_match ''_default_v1'' 8080 ''instance_proj_default_v1_3-8080''"
  "\<not> instance_key_re_match ''_default_v1'' 8080 ''api-server_proj-19999''"
  "instance_key_re_match ''proj_default_v1'' 1024 ''instance_proj_default_v1_3-10240''"
  "instance_key_re_match ''proj_default_v1'' 1024 ''instance_proj_default_v1_3-10241''"
  "\<not> instance_key_re_match ''proj_default_v1'' 1024 ''api-server_proj-19999''"
  "instance_key_re_match ''foo_default_v1'' 8080 ''instance_foo_default_v1_1-8080''"
  "\<not> instance_key_re_match ''foo_default_v1'' 8080 ''instance_foobar_default_v1_1-8081''"
  "\<not> instance_key_re_match ''foo_default_v1'' 8080 ''api-server_foo-19999''"
  "\<not> instance_key_re_match ''foo_default_v1'' 8080 ''api-server_foobar-19998''"
  by (simp_all add: instance_key_re_match_def startswith_def MONIT_INSTANCE_PREFIX_def
        py_str_8080 py_str_stop)

lemma py_int_stop: "py_int ''10240'' = Inr 10240" "py_int ''10241'' = Inr 10241"
  by (simp_all add: py_int_digits is_digit_def nat_of_digits_def digit_val_def)

lemma parse_examples:
  "parse_instance_entry ''instance_proj_default_v1_3-8080'' = Inr (''proj_default_v1_3'', 8080)"
  "parse_instance_entry ''instance_proj_default_v1_3-10240'' = Inr (''proj_default_v1_3'', 10240)"
  "parse_instance_entry ''instance_proj_default_v1_3-10241'' = Inr (''proj_default_v1_3'', 10241)"
  "parse_instance_entry ''instance_foo_default_v1_1-8080'' = Inr (''foo_default_v1_1'', 8080)"
  "parse_instance_entry ''instance_foobar_default_v1_1-8081'' = Inr (''foobar_default_v1_1'', 8081)"
  by (simp_all add: parse_instance_entry_def MONIT_INSTANCE_PREFIX_def py_rsplit1_def
        py_int_examples py_int_stop)

lemma unmonitor_fetched:
  assumes "monit_fetch e w 0 = Fetched"
  shows "unmonitor_and_terminate e s w
           = (Inr (), spawn_callback (StopInstance w)
                        (emit [MonitUnmonitor w, RemoveConfiguration w] s))"
  using assms
  by (simp add: unmonitor_and_terminate_def emit_emit) (subst unmonitor.simps, simp add: emit_emit)



lemmas stop_eval =
  stop_app_instance_def stop_app_def Let_def project_examples match_examples parse_examples
  stop_api_server_if_last_def stop_api_server_def reload_and_clean_def
  remove_logrotate_if_gone_def startswith_def
  MONIT_INSTANCE_PREFIX_def API_SERVER_PREFIX_def py_str_small py_str_stop dict_del_def
  emit_def spawn_callback_def unregister_instance_def zk_delete_def


lemma stop_app_404_example:
  "stop_app env404 s_proj ''proj_default_v1''
     = (Inr (),
        \<lparr> api_servers = [], running_instances = {}, zk_nodes = [], pending = [],
          trace = [UnregisterInstance (Instance ''proj_default_v1_3'' 8080),
                   MonitUnmonitor ''instance_proj_default_v1_3-8080'',
                   MonitUnmonitor ''api-server_proj-19999'',
                   MonitReload, CleanOldSources] \<rparr>)"
  by (simp add: stop_eval env404_fields s_proj_def s0_def
        unmonitor_and_terminate_404 [where m = "''Not Found''"] del: py_split.simps)


lemma stop_two_example:
  "stop_app_instance env_two s_proj ''proj_default_v1'' 1024
     = (Inr (),
        \<lparr> api_servers = [], running_instances = {}, zk_nodes = [],
          pending = [StopInstance ''instance_proj_default_v1_3-10240'',
                     StopInstance ''api-server_proj-19999''],
          trace = [UnregisterInstance (Instance ''proj_default_v1_3'' 10240),
                   MonitUnmonitor ''instance_proj_default_v1_3-10240'',
                   RemoveConfiguration ''instance_proj_default_v1_3-10240'',
                   SpawnCallback (StopInstance ''instance_proj_default_v1_3-10240''),
                   MonitUnmonitor ''api-server_proj-19999'',
                   RemoveConfiguration ''api-server_proj-19999'',
                   SpawnCallback (StopInstance ''api-server_proj-19999''),
                   MonitReload, CleanOldSources] \<rparr>)"
  by (simp add: stop_eval env_two_fields s_proj_def s0_def unmonitor_fetched del: py_split.simps)

lemma stop_foo_example:
  "stop_app_instance env_foo s_foo ''foo_default_v1'' 8080
     = (Inr (),
        \<lparr> api_servers = [(''foo'', 19999), (''foobar'', 19998)],
          running_instances = {}, zk_nodes = [],
          pending = [StopInstance ''instance_foo_default_v1_1-8080''],
          trace = [UnregisterInstance (Instance ''foo_default_v1_1'' 8080),
                   MonitUnmonitor ''instance_foo_default_v1_1-8080'',
                   RemoveConfiguration ''instance_foo_default_v1_1-8080'',
                   SpawnCallback (StopInstance ''instance_foo_default_v1_1-8080''),
                   MonitReload, CleanOldSources] \<rparr>)"
  by (simp add: stop_eval env_foo_fields s_foo_def s0_def unmonitor_fetched del: py_split.simps)

lemma stop_app_foo_example:
  "stop_app env_foo s_foo ''foo_default_v1''
     = (Inr (),
        \<lparr> api_servers = [(''foo'', 19999), (''foobar'', 19998)],
          running_instances = {}, zk_nodes = [],
          pending = [StopInstance ''instance_foo_default_v1_1-8080''],
          trace = [UnregisterInstance (Instance ''foo_default_v1_1'' 8080),
                   MonitUnmonitor ''instance_foo_default_v1_1-8080'',
                   RemoveConfiguration ''instance_foo_default_v1_1-8080'',
                   SpawnCallback (StopInstance ''instance_foo_default_v1_1-8080''),
                   RemoveLogrotate ''foo'',
                   MonitReload, CleanOldSources] \<rparr>)"
  by (simp add: stop_eval env_foo_fields s_foo_def s0_def unmonitor_fetched del: py_split.simps)





text \<open>
  Claim C8 fails on these nodes. Project \<open>foo\<close> and project \<open>foobar\<close> each run one instance.
  After the only instance of \<open>foo\<close> has been stopped, by either stop operation, the API server
  of \<open>foo\<close> is still on record and nothing was sent to Monit for it: the entry of \<open>foobar\<close>
  begins with \<open>instance_foo\<close> and counts as a remaining instance of \<open>foo\<close>. The other way
  round, on the node with instances of \<open>proj\<close> on ports 10240 and 10241, a stop for port 1024
  stops the first, leaves the second running, and takes the API server of \<open>proj\<close> down: both
  entries match the pattern, so none counts as remaining.
\<close>

theorem stop_api_server_invariant_example:
  "map parse_instance_entry
       (filter (\<lambda>entry. startswith entry MONIT_INSTANCE_PREFIX) (monit_entries env_foo))
     = [Inr (''foo_default_v1_1'', 8080), Inr (''foobar_default_v1_1'', 8081)]
   \<and> hd (py_split VERSION_PATH_SEPARATOR ''foobar_default_v1_1'') = ''foobar''
   \<and> fst (stop_app_instance env_foo s_foo ''foo_default_v1'' 8080) = Inr ()
   \<and> trace (snd (stop_app_instance env_foo s_foo ''foo_default_v1'' 8080))
       = [UnregisterInstance (Instance ''foo_default_v1_1'' 8080),
          MonitUnmonitor ''instance_foo_default_v1_1-8080'',
          RemoveConfiguration ''instance_foo_default_v1_1-8080'',
          SpawnCallback (StopInstance ''instance_foo_default_v1_1-8080''),
          MonitReload, CleanOldSources]
   \<and> map_of (api_servers (snd (stop_app_instance env_foo s_foo ''foo_default_v1'' 8080))) ''foo''
       = Some 19999
   \<and> fst (stop_app env_foo s_foo ''foo_default_v1'') = Inr ()
   \<and> map_of (api_servers (snd (stop_app env_foo s_foo ''foo_default_v1''))) ''foo'' = Some 19999
   \<and> map parse_instance_entry
       (filter (\<lambda>entry. startswith entry MONIT_INSTANCE_PREFIX) (monit_entries env_two))
     = [Inr (''proj_default_v1_3'', 10240), Inr (''proj_default_v1_3'', 10241)]
   \<and> fst (stop_app_instance env_two s_proj ''proj_default_v1'' 1024) = Inr ()
   \<and> MonitUnmonitor ''instance_proj_default_v1_3-10241''
       \<notin> set (trace (snd (stop_app_instance env_two s_proj ''proj_default_v1'' 1024)))
   \<and> MonitUnmonitor ''api-server_proj-19999''
       \<in> set (trace (snd (stop_app_instance env_two s_proj ''proj_default_v1'' 1024)))
   \<and> map_of (api_servers s_proj) ''proj'' = Some 19999
   \<and> map_of (api_servers (snd (stop_app_instance env_two s_proj ''proj_default_v1'' 1024))) ''proj''
       = None"
  by (simp add: env_foo_fields env_two_fields parse_examples project_examples
        stop_foo_example stop_app_foo_example stop_two_example s_proj_fields startswith_def
        MONIT_INSTANCE_PREFIX_def del: py_split.simps)

end
